theory Spec2Isabelle
  imports Main "HOL-Library.Word"
begin

section \<open>JavaScript strings\<close>

text \<open>
  A JavaScript string is modelled as a \<^typ>\<open>string\<close>, one \<^typ>\<open>char\<close> per code unit, for
  texts whose code units are below 256. The functions below are the methods of
  \<^verbatim>\<open>String.prototype\<close> that \<^verbatim>\<open>server.js\<close> calls.
\<close>

type_synonym byte = "8 word"

definition startsWith :: "string \<Rightarrow> string \<Rightarrow> bool" where
  "startsWith s p = (take (length p) s = p)"

text \<open>\<^verbatim>\<open>s.includes(p)\<close>: \<open>p\<close> occurs in \<open>s\<close> at some position.\<close>

fun str_includes :: "string \<Rightarrow> string \<Rightarrow> bool" where
  "str_includes [] p = (p = [])"
| "str_includes (c # s) p = (startsWith (c # s) p \<or> str_includes s p)"

text \<open>\<^verbatim>\<open>s.split(d)\<close> for a one-character separator: never empty, \<^verbatim>\<open>"".split("\n")\<close> is \<^verbatim>\<open>[""]\<close>.\<close>

fun split_on :: "char \<Rightarrow> string \<Rightarrow> string list" where
  "split_on d [] = [[]]"
| "split_on d (c # s) =
     (if c = d then [] # split_on d s
      else (case split_on d s of [] \<Rightarrow> [[c]] | l # ls \<Rightarrow> (c # l) # ls))"

text \<open>\<^verbatim>\<open>s.lastIndexOf(c)\<close>: the last position of \<open>c\<close>, or \<open>-1\<close>.\<close>

fun lastIndexOf :: "string \<Rightarrow> char \<Rightarrow> int" where
  "lastIndexOf [] c = -1"
| "lastIndexOf (x # s) c =
     (let r = lastIndexOf s c in
      if r \<ge> 0 then r + 1 else if x = c then 0 else -1)"

text \<open>\<^verbatim>\<open>s.substring(0, n)\<close>; a negative \<open>n\<close> counts as 0.\<close>

definition substring0 :: "string \<Rightarrow> int \<Rightarrow> string" where
  "substring0 s n = take (nat n) s"

text \<open>
  The white space that \<^verbatim>\<open>trim\<close> removes, among the code units below 256: tab, line feed,
  vertical tab, form feed, carriage return, space and no-break space.
\<close>

definition is_ws :: "char \<Rightarrow> bool" where
  "is_ws c = (of_char c \<in> {9, 10, 11, 12, 13, 32, 160 :: nat})"

definition trim :: "string \<Rightarrow> string" where
  "trim s = rev (dropWhile is_ws (rev (dropWhile is_ws s)))"

section \<open>The HLS downloader (\<^verbatim>\<open>downloadHLS\<close>, server.js 387--487)\<close>

subsection \<open>The network and the file system\<close>

text \<open>
  The options object of an \<^verbatim>\<open>axios\<close> call. A call that writes no \<^verbatim>\<open>timeout\<close> has
  \<open>timeout = None\<close> (axios then waits without bound); the time is in milliseconds.
\<close>

datatype http_verb = GET | HEAD

datatype response_type = Default | Stream

record request =
  verb :: http_verb
  url :: string
  responseType :: response_type
  timeout :: "nat option"
  headers :: "(string \<times> string) list"

definition user_agent :: string where
  "user_agent = ''Mozilla/5.0 (Macintosh; Intel Mac OS X 10_15_7) AppleWebKit/537.36''"

text \<open>The request for the playlist text (lines 392--396).\<close>

definition playlist_request :: "string \<Rightarrow> request" where
  "playlist_request m3u8Url =
     \<lparr>verb = GET, url = m3u8Url, responseType = Default, timeout = None,
      headers = [(''User-Agent'', user_agent)]\<rparr>"

text \<open>The request for one segment (lines 446--452).\<close>

definition segment_request :: "string \<Rightarrow> request" where
  "segment_request segmentUrl =
     \<lparr>verb = GET, url = segmentUrl, responseType = Stream, timeout = Some 30000,
      headers = [(''User-Agent'', user_agent)]\<rparr>"

text \<open>
  The requests of \<^verbatim>\<open>extractTwitchM3U8\<close>: the probe of a candidate URL (lines 319--325),
  the fetch of the page (lines 341--346) and the probe of a URL found in the page (lines
  359--364).
\<close>

definition candidate_probe_request :: "string \<Rightarrow> request" where
  "candidate_probe_request m3u8Url =
     \<lparr>verb = HEAD, url = m3u8Url, responseType = Default, timeout = Some 10000,
      headers = [(''User-Agent'', user_agent),
                 (''Accept'', ''application/x-mpegURL, application/vnd.apple.mpegurl, application/json, text/plain'')]\<rparr>"

definition page_request :: "string \<Rightarrow> request" where
  "page_request twitchUrl =
     \<lparr>verb = GET, url = twitchUrl, responseType = Default, timeout = Some 15000,
      headers = [(''User-Agent'', user_agent)]\<rparr>"

definition scraped_probe_request :: "string \<Rightarrow> request" where
  "scraped_probe_request m3u8Url =
     \<lparr>verb = HEAD, url = m3u8Url, responseType = Default, timeout = Some 5000,
      headers = [(''User-Agent'', user_agent)]\<rparr>"

text \<open>
  What one streaming request does, seen from lines 446--459: \<^verbatim>\<open>axios.get\<close> rejects
  (\<open>RequestFailed\<close>); or the body is piped into the write stream up to its \<^verbatim>\<open>end\<close> event
  (\<open>StreamEnded\<close>, with the whole body); or the body emits \<^verbatim>\<open>error\<close> after some chunks,
  which \<^verbatim>\<open>pipe\<close> has already written (\<open>StreamFailed\<close>, with those chunks).
\<close>

datatype stream_outcome =
    RequestFailed string
  | StreamEnded "byte list"
  | StreamFailed "byte list" string

text \<open>
  The network: the playlist request is answered with an error message or with the text
  of the body; the \<open>i\<close>-th segment request of a run is answered with a stream outcome.
\<close>

record network =
  get_text :: "request \<Rightarrow> string + string"
  get_stream :: "nat \<Rightarrow> request \<Rightarrow> stream_outcome"

text \<open>
  The file system is a map from paths to the bytes of regular files. \<open>storage\<close> says where
  its operations fail: a path at which \<^verbatim>\<open>fs.createWriteStream\<close> cannot open a file (the
  stream then emits \<^verbatim>\<open>error\<close> while \<^verbatim>\<open>downloadHLS\<close> listens to nothing, and no handler
  of the program catches it), a path whose write stream emits \<^verbatim>\<open>error\<close> instead of
  \<^verbatim>\<open>finish\<close> after \<^verbatim>\<open>end()\<close>, a path that \<^verbatim>\<open>fs.unlinkSync\<close> cannot remove, and the
  paths that are directories.
\<close>

type_synonym filesystem = "string \<rightharpoonup> byte list"

record storage =
  open_error :: "string \<Rightarrow> string option"
  finish_error :: "string \<Rightarrow> string option"
  unlink_fails :: "string \<Rightarrow> bool"
  is_directory :: "string \<Rightarrow> bool"

text \<open>
  How an asynchronous function ends: an error that no handler catches ends the process
  (\<open>Uncaught\<close>); otherwise its promise settles, rejected (\<open>Inl\<close>) or fulfilled (\<open>Inr\<close>).
\<close>

datatype 'a settled = Uncaught string | Settled 'a

datatype hls_error =
    AxiosError string
  | NoSegmentsFound
  | NoSegmentsDownloaded
  | WriteStreamError string
  | HLSDownloadFailed hls_error

subsection \<open>Parsing the playlist (lines 402--436)\<close>

definition stream_inf :: string where
  "stream_inf = ''#EXT-X-STREAM-INF''"

definition playlist_lines :: "string \<Rightarrow> string list" where
  "playlist_lines playlist = split_on CHR 0x0A playlist"

definition baseUrl_of :: "string \<Rightarrow> string" where
  "baseUrl_of m3u8Url = substring0 m3u8Url (lastIndexOf m3u8Url CHR ''/'' + 1)"

definition isMasterPlaylist :: "string list \<Rightarrow> bool" where
  "isMasterPlaylist lines = list_ex (\<lambda>line. str_includes line stream_inf) lines"

text \<open>
  The test of line 415 on \<^verbatim>\<open>lines[i + 1]\<close>: the element exists (otherwise it is
  \<^verbatim>\<open>undefined\<close>), is not the empty string, and does not start with \<^verbatim>\<open>#\<close>.
\<close>

definition usable_stream_at :: "string list \<Rightarrow> nat \<Rightarrow> bool" where
  "usable_stream_at lines j =
     (j < length lines \<and> lines ! j \<noteq> [] \<and> \<not> startsWith (lines ! j) ''#'')"

text \<open>The loop of lines 412--421, from index \<open>i\<close>: the stream line it returns with, if any.\<close>

function find_stream :: "string list \<Rightarrow> nat \<Rightarrow> string option" where
  "find_stream lines i =
     (if i < length lines then
        (if str_includes (lines ! i) stream_inf \<and> usable_stream_at lines (i + 1)
         then Some (lines ! (i + 1))
         else find_stream lines (i + 1))
      else None)"
  by pat_completeness auto
termination
  by (relation "measure (\<lambda>(lines, i). length lines - i)") auto

declare find_stream.simps [simp del]

definition resolve_url :: "string \<Rightarrow> string \<Rightarrow> string" where
  "resolve_url baseUrl line = (if startsWith line ''http'' then line else baseUrl @ line)"

text \<open>The test of line 426.\<close>

definition is_segment_line :: "string \<Rightarrow> bool" where
  "is_segment_line line = (line \<noteq> [] \<and> \<not> startsWith line ''#'' \<and> length (trim line) > 0)"

text \<open>The loop of lines 425--430; \<open>segments\<close> is the array pushed to.\<close>

fun extract_segments :: "string \<Rightarrow> string list \<Rightarrow> string list \<Rightarrow> string list" where
  "extract_segments baseUrl [] segments = segments"
| "extract_segments baseUrl (line # rest) segments =
     (if is_segment_line line
      then extract_segments baseUrl rest (segments @ [resolve_url baseUrl line])
      else extract_segments baseUrl rest segments)"

subsection \<open>Downloading the segments (lines 439--482)\<close>

record download_state =
  written :: "byte list"
  downloadedSegments :: nat

text \<open>One turn of the loop body, lines 443--466.\<close>

definition download_segment :: "stream_outcome \<Rightarrow> download_state \<Rightarrow> download_state" where
  "download_segment outcome st =
     (case outcome of
        RequestFailed msg \<Rightarrow> st
      | StreamEnded body \<Rightarrow>
          st\<lparr>written := written st @ body, downloadedSegments := downloadedSegments st + 1\<rparr>
      | StreamFailed chunks msg \<Rightarrow> st\<lparr>written := written st @ chunks\<rparr>)"

function segment_loop ::
  "network \<Rightarrow> string list \<Rightarrow> nat \<Rightarrow> download_state \<Rightarrow> download_state" where
  "segment_loop net segments i st =
     (if i < length segments then
        segment_loop net segments (i + 1)
          (download_segment (get_stream net i (segment_request (segments ! i))) st)
      else st)"
  by pat_completeness auto
termination
  by (relation "measure (\<lambda>(net, segments, i, st). length segments - i)") auto

declare segment_loop.simps [simp del]

text \<open>
  Lines 439--482: the write stream is created, the loop runs, the stream is ended, its
  \<^verbatim>\<open>finish\<close> or \<^verbatim>\<open>error\<close> is awaited (lines 471--474), and the count decides the result.
  When the file cannot be opened the error of the stream is caught by nobody.
\<close>

definition download_segments ::
  "network \<Rightarrow> storage \<Rightarrow> string list \<Rightarrow> string \<Rightarrow> filesystem \<Rightarrow>
     (hls_error + nat) settled \<times> filesystem" where
  "download_segments net sto segments outputPath files =
     (case open_error sto outputPath of
        Some msg \<Rightarrow> (Uncaught msg, files)
      | None \<Rightarrow>
          (let st = segment_loop net segments 0 \<lparr>written = [], downloadedSegments = 0\<rparr>;
               files' = files(outputPath \<mapsto> written st)
           in case finish_error sto outputPath of
                Some msg \<Rightarrow> (Settled (Inl (WriteStreamError msg)), files')
              | None \<Rightarrow>
                  if downloadedSegments st = 0 then (Settled (Inl NoSegmentsDownloaded), files')
                  else (Settled (Inr (downloadedSegments st)), files')))"

text \<open>Lines 424--482, the part of the body after the master branch.\<close>

definition download_media ::
  "network \<Rightarrow> storage \<Rightarrow> string \<Rightarrow> string list \<Rightarrow> string \<Rightarrow> filesystem \<Rightarrow>
     (hls_error + nat) settled \<times> filesystem" where
  "download_media net sto baseUrl lines outputPath files =
     (let segments = extract_segments baseUrl lines [] in
      if length segments = 0 then (Settled (Inl NoSegmentsFound), files)
      else download_segments net sto segments outputPath files)"

text \<open>The \<^verbatim>\<open>catch\<close> of lines 484--486 wraps every error thrown in the body.\<close>

fun wrap_error ::
  "(hls_error + nat) settled \<times> filesystem \<Rightarrow> (hls_error + nat) settled \<times> filesystem" where
  "wrap_error (Settled (Inl e), files) = (Settled (Inl (HLSDownloadFailed e)), files)"
| "wrap_error (Settled (Inr n), files) = (Settled (Inr n), files)"
| "wrap_error (Uncaught msg, files) = (Uncaught msg, files)"

text \<open>
  \<^verbatim>\<open>downloadHLS\<close>. It calls itself on the stream of a master playlist, with no bound on
  the depth: the result is \<open>None\<close> when the calls never end.
\<close>

partial_function (option) downloadHLS ::
  "network \<Rightarrow> storage \<Rightarrow> string \<Rightarrow> string \<Rightarrow> filesystem \<Rightarrow>
     ((hls_error + nat) settled \<times> filesystem) option" where
  "downloadHLS net sto m3u8Url outputPath files =
     (case get_text net (playlist_request m3u8Url) of
        Inl msg \<Rightarrow> Some (Settled (Inl (HLSDownloadFailed (AxiosError msg))), files)
      | Inr playlist \<Rightarrow>
          (let lines = playlist_lines playlist;
               baseUrl = baseUrl_of m3u8Url
           in case (if isMasterPlaylist lines then find_stream lines 0 else None) of
                Some streamUrl \<Rightarrow>
                  Option.bind
                    (downloadHLS net sto (resolve_url baseUrl streamUrl) outputPath files)
                    (\<lambda>r. Some (wrap_error r))
              | None \<Rightarrow>
                  Some (wrap_error (download_media net sto baseUrl lines outputPath files))))"

section \<open>Reference notions for the downloader's properties\<close>

text \<open>The outcomes of the segment requests of one run, in the order of the segment list.\<close>

definition outcomes :: "network \<Rightarrow> string list \<Rightarrow> stream_outcome list" where
  "outcomes net segments =
     map (\<lambda>i. get_stream net i (segment_request (segments ! i))) [0..<length segments]"

text \<open>The bytes that a segment's stream handed to \<^verbatim>\<open>pipe\<close> before it ended or failed.\<close>

fun delivered :: "stream_outcome \<Rightarrow> byte list" where
  "delivered (RequestFailed msg) = []"
| "delivered (StreamEnded body) = body"
| "delivered (StreamFailed chunks msg) = chunks"

text \<open>A segment succeeded when its request was answered and its stream reached \<^verbatim>\<open>end\<close>.\<close>

fun succeeded :: "stream_outcome \<Rightarrow> bool" where
  "succeeded (StreamEnded body) = True"
| "succeeded (RequestFailed msg) = False"
| "succeeded (StreamFailed chunks msg) = False"

fun body_of :: "stream_outcome \<Rightarrow> byte list" where
  "body_of (StreamEnded body) = body"
| "body_of (RequestFailed msg) = []"
| "body_of (StreamFailed chunks msg) = []"

text \<open>The in-order concatenation of the bodies of the segments that succeeded.\<close>

definition succeeded_bodies :: "network \<Rightarrow> string list \<Rightarrow> byte list" where
  "succeeded_bodies net segments =
     concat (map body_of (filter succeeded (outcomes net segments)))"

definition succeeded_count :: "network \<Rightarrow> string list \<Rightarrow> nat" where
  "succeeded_count net segments = length (filter succeeded (outcomes net segments))"

text \<open>No segment of the run failed after its stream had delivered bytes.\<close>

definition fails_before_data :: "stream_outcome \<Rightarrow> bool" where
  "fails_before_data out = (if succeeded out then True else delivered out = [])"

definition clean_failures :: "network \<Rightarrow> string list \<Rightarrow> bool" where
  "clean_failures net segments = list_all fails_before_data (outcomes net segments)"

subsection \<open>Example runs\<close>

text \<open>A storage on which nothing fails, and one whose write streams fail at the end.\<close>

definition reliable :: storage where
  "reliable =
     \<lparr>open_error = (\<lambda>p. None), finish_error = (\<lambda>p. None),
      unlink_fails = (\<lambda>p. False), is_directory = (\<lambda>p. False)\<rparr>"

definition full_disk :: storage where
  "full_disk =
     \<lparr>open_error = (\<lambda>p. None),
      finish_error = (\<lambda>p. Some ''ENOSPC: no space left on device, write''),
      unlink_fails = (\<lambda>p. False), is_directory = (\<lambda>p. False)\<rparr>"

text \<open>A storage in which the directory \<^verbatim>\<open>nodir\<close> is missing.\<close>

definition missing_directory :: storage where
  "missing_directory =
     \<lparr>open_error = (\<lambda>p. if str_includes p ''/nodir/''
                          then Some ''ENOENT: no such file or directory, open'' else None),
      finish_error = (\<lambda>p. None),
      unlink_fails = (\<lambda>p. False), is_directory = (\<lambda>p. False)\<rparr>"

definition two_segments :: "string list" where
  "two_segments = [''http://h/p/seg0.ts'', ''http://h/p/seg1.ts'']"

definition three_segments :: "string list" where
  "three_segments = [''http://h/p/seg0.ts'', ''http://h/p/seg1.ts'', ''http://h/p/seg2.ts'']"

text \<open>The first segment's stream breaks after two bytes; every other segment arrives.\<close>

definition aborting_net :: network where
  "aborting_net =
     \<lparr>get_text = (\<lambda>r. Inl ''Network Error''),
      get_stream = (\<lambda>i r. if i = 0 then StreamFailed [0x47, 0x40] ''aborted''
                           else StreamEnded [0x47, 0x41])\<rparr>"

text \<open>The second segment's request times out; every other segment arrives.\<close>

definition lossy_net :: network where
  "lossy_net =
     \<lparr>get_text = (\<lambda>r. Inl ''Network Error''),
      get_stream = (\<lambda>i r. if i = 1 then RequestFailed ''timeout of 30000ms exceeded''
                           else StreamEnded [0x47, of_nat i])\<rparr>"

section \<open>Reference notions for the parser's properties\<close>


text \<open>The lines that, moreover, are not made of white space only.\<close>

definition segment_lines :: "string list \<Rightarrow> string list" where
  "segment_lines lines =
     filter (\<lambda>line. line \<noteq> [] \<and> \<not> startsWith line ''#'' \<and> trim line \<noteq> []) lines"



text \<open>No stream-info line is followed by a line that line 415 accepts.\<close>

definition no_usable_variant :: "string list \<Rightarrow> bool" where
  "no_usable_variant lines =
     list_all (\<lambda>i. \<not> (str_includes (lines ! i) stream_inf \<and> usable_stream_at lines (i + 1)))
       [0..<length lines]"

subsection \<open>Example playlists\<close>


definition commented_master :: string where
  "commented_master = ''#EXT-X-STREAM-INF:BANDWIDTH=1280000\<newline># low quality\<newline>low/index.m3u8''"

definition dangling_master :: string where
  "dangling_master = ''#EXTM3U\<newline>#EXT-X-STREAM-INF:BANDWIDTH=1280000\<newline>''"

text \<open>A server with one playlist, at one URL, on which every segment request succeeds.\<close>

definition playlist_net :: "string \<Rightarrow> network" where
  "playlist_net playlist =
     \<lparr>get_text = (\<lambda>r. if url r = ''http://h/p/index.m3u8'' then Inr playlist
                        else Inl ''Request failed with status code 404''),
      get_stream = (\<lambda>i r. StreamEnded [0x47, of_nat i])\<rparr>"

section \<open>The converter (\<^verbatim>\<open>convertTsToMp4\<close>, server.js 19--70; \<^verbatim>\<open>runFFmpeg\<close>, 73--170)\<close>

subsection \<open>The external tool, the console and the world\<close>

text \<open>
  How a spawned process ends, seen from the handlers of lines 114--168: the \<^verbatim>\<open>error\<close>
  event (the process could not be started), the \<^verbatim>\<open>close\<close> event with the exit code
  (\<open>None\<close> for \<^verbatim>\<open>null\<close>, a process ended by a signal) and the captured error stream,
  or neither within five minutes.
\<close>

datatype process_outcome =
    SpawnError string
  | Closed "int option" string
  | TimedOut

text \<open>
  The tool: the path that \<^verbatim>\<open>ffmpeg-static\<close> exports (\<^verbatim>\<open>null\<close> is \<open>None\<close>), and what
  a process spawned from a binary with an argument vector does to the files. The probe
  of \<^verbatim>\<open>diagnoseTsFile\<close> is spawned with no timer: \<open>probe_closes\<close> says whether it ever emits
  \<^verbatim>\<open>close\<close> or \<^verbatim>\<open>error\<close>.
\<close>

record tools =
  ffmpegPath :: "string option"
  probe_closes :: "string \<Rightarrow> string list \<Rightarrow> filesystem \<Rightarrow> bool"
  spawn :: "string \<Rightarrow> string list \<Rightarrow> filesystem \<Rightarrow> process_outcome \<times> filesystem"

datatype strategy = Copy | Reencode | Basic

datatype ffmpeg_error =
    InputMissing string
  | BinaryNotFound "string option"
  | EmptyOutput
  | OutputNotCreated
  | ConversionFailed string "int option" string
  | FailedToStart string
  | ConversionTimeout

datatype convert_error = AllStrategiesFailed ffmpeg_error

text \<open>
  What the run leaves behind besides files: the processes spawned and killed, and the
  console lines of \<^verbatim>\<open>convertTsToMp4\<close> (22, 30, 33, 38, 49, 52, 57, 64, 67).
\<close>

datatype event =
    Spawned string "string list"
  | Killed
  | Trying strategy
  | Successful strategy
  | StrategyFailed strategy ffmpeg_error
  | AllFailed

record world =
  disk :: filesystem
  console :: "event list"

definition say :: "event \<Rightarrow> world \<Rightarrow> world" where
  "say e w = w\<lparr>console := console w @ [e]\<rparr>"

subsection \<open>\<^verbatim>\<open>runFFmpeg\<close>\<close>

text \<open>The error patterns of lines 138--147.\<close>

definition errorAnalysis :: "string \<Rightarrow> string" where
  "errorAnalysis stderr =
     (if str_includes stderr ''Invalid data found when processing input''
        then ''Input TS file appears to be corrupted or invalid''
      else if str_includes stderr ''No space left on device''
        then ''Insufficient disk space for conversion''
      else if str_includes stderr ''Permission denied''
        then ''Permission denied writing output file''
      else if str_includes stderr ''moov atom not found''
        then ''Input file is incomplete or corrupted''
      else ''Unknown FFmpeg error'')"

text \<open>The \<^verbatim>\<open>close\<close> handler, lines 114--151, on the files the process left.\<close>

definition on_close :: "string \<Rightarrow> int option \<Rightarrow> string \<Rightarrow> filesystem \<Rightarrow> ffmpeg_error + unit" where
  "on_close outputPath code stderr files =
     (if code = Some 0 then
        (case files outputPath of
           Some bytes \<Rightarrow> if length bytes = 0 then Inl EmptyOutput else Inr ()
         | None \<Rightarrow> Inl OutputNotCreated)
      else Inl (ConversionFailed (errorAnalysis stderr) code stderr))"

text \<open>
  The promise of \<^verbatim>\<open>runFFmpeg\<close>: \<open>Inl\<close> when it rejects, \<open>Inr\<close> when it resolves. Line 87
  rejects when the path of the binary is \<^verbatim>\<open>null\<close> or empty, or no file is there. A process
  that could not be started leaves the files as they were; on the timeout the process is
  killed (line 161).
\<close>

definition runFFmpeg ::
  "tools \<Rightarrow> string \<Rightarrow> string \<Rightarrow> string list \<Rightarrow> world \<Rightarrow> (ffmpeg_error + unit) \<times> world" where
  "runFFmpeg t inputPath outputPath args w =
     (if disk w inputPath = None then (Inl (InputMissing inputPath), w)
      else case ffmpegPath t of
        None \<Rightarrow> (Inl (BinaryNotFound None), w)
      | Some bin \<Rightarrow>
          if bin = [] \<or> disk w bin = None then (Inl (BinaryNotFound (Some bin)), w)
          else
            (case spawn t bin args (disk w) of
               (SpawnError msg, files) \<Rightarrow> (Inl (FailedToStart msg), say (Spawned bin args) w)
             | (TimedOut, files) \<Rightarrow>
                 (Inl ConversionTimeout, say Killed (say (Spawned bin args) (w\<lparr>disk := files\<rparr>)))
             | (Closed code stderr, files) \<Rightarrow>
                 (on_close outputPath code stderr files,
                  say (Spawned bin args) (w\<lparr>disk := files\<rparr>))))"

subsection \<open>\<^verbatim>\<open>convertTsToMp4\<close>\<close>

text \<open>The argument vectors of lines 23--29, 39--48 and 58--63.\<close>

fun strategy_args :: "strategy \<Rightarrow> string \<Rightarrow> string \<Rightarrow> string list" where
  "strategy_args Copy inputPath outputPath =
     [''-i'', inputPath, ''-c'', ''copy'', ''-avoid_negative_ts'', ''make_zero'', ''-y'', outputPath]"
| "strategy_args Reencode inputPath outputPath =
     [''-i'', inputPath, ''-c:v'', ''libx264'', ''-c:a'', ''aac'', ''-preset'', ''fast'',
      ''-crf'', ''23'', ''-avoid_negative_ts'', ''make_zero'', ''-y'', outputPath]"
| "strategy_args Basic inputPath outputPath =
     [''-i'', inputPath, ''-f'', ''mp4'', ''-y'', outputPath]"

declare strategy_args.simps [simp del]

definition convertTsToMp4 ::
  "tools \<Rightarrow> string \<Rightarrow> string \<Rightarrow> world \<Rightarrow> (convert_error + unit) \<times> world" where
  "convertTsToMp4 t inputPath outputPath w =
     (case runFFmpeg t inputPath outputPath (strategy_args Copy inputPath outputPath)
             (say (Trying Copy) w) of
        (Inr u, w1) \<Rightarrow> (Inr (), say (Successful Copy) w1)
      | (Inl e1, w1) \<Rightarrow>
     (case runFFmpeg t inputPath outputPath (strategy_args Reencode inputPath outputPath)
             (say (Trying Reencode) (say (StrategyFailed Copy e1) w1)) of
        (Inr u, w2) \<Rightarrow> (Inr (), say (Successful Reencode) w2)
      | (Inl e2, w2) \<Rightarrow>
     (case runFFmpeg t inputPath outputPath (strategy_args Basic inputPath outputPath)
             (say (Trying Basic) (say (StrategyFailed Reencode e2) w2)) of
        (Inr u, w3) \<Rightarrow> (Inr (), say (Successful Basic) w3)
      | (Inl e3, w3) \<Rightarrow> (Inl (AllStrategiesFailed e3), say AllFailed w3))))"

section \<open>Reference notions for the converter's properties\<close>

text \<open>The strategies tried, and the strategies reported as successful, on a console.\<close>

fun tried :: "event list \<Rightarrow> strategy list" where
  "tried [] = []"
| "tried (Trying s # es) = s # tried es"
| "tried (e # es) = tried es"

fun reported :: "event list \<Rightarrow> strategy list" where
  "reported [] = []"
| "reported (Successful s # es) = s # reported es"
| "reported (e # es) = reported es"

text \<open>The strategies given up on a console, each with the error that made it fail.\<close>

fun failed :: "event list \<Rightarrow> (strategy \<times> ffmpeg_error) list" where
  "failed [] = []"
| "failed (StrategyFailed s err # es) = (s, err) # failed es"
| "failed (e # es) = failed es"

text \<open>One strategy run on given files, with a console of its own.\<close>

definition attempt ::
  "tools \<Rightarrow> string \<Rightarrow> string \<Rightarrow> strategy \<Rightarrow> filesystem \<Rightarrow> (ffmpeg_error + unit) \<times> filesystem" where
  "attempt t inputPath outputPath s files =
     (case runFFmpeg t inputPath outputPath (strategy_args s inputPath outputPath)
             \<lparr>disk = files, console = []\<rparr> of
        (r, w) \<Rightarrow> (r, disk w))"

subsection \<open>Example tools\<close>

text \<open>
  A tool that rejects the input when asked to copy, ends with code 0 and no output when
  asked to re-encode with \<^verbatim>\<open>libx264\<close>, and otherwise writes four bytes to its last argument.
\<close>

definition picky_tools :: tools where
  "picky_tools =
     \<lparr>ffmpegPath = Some ''/bin/ffmpeg'',
      probe_closes = (\<lambda>bin args files. True),
      spawn = (\<lambda>bin args files.
        if args ! 2 = ''-c'' then (Closed (Some 1) ''Invalid data found when processing input'', files)
        else if args ! 2 = ''-c:v'' then (Closed (Some 0) [], files)
        else (Closed (Some 0) [], files(last args \<mapsto> [0x00, 0x00, 0x00, 0x18])))\<rparr>"

text \<open>A tool whose first process cannot be started, and that works afterwards.\<close>

definition busy_tools :: tools where
  "busy_tools =
     \<lparr>ffmpegPath = Some ''/bin/ffmpeg'',
      probe_closes = (\<lambda>bin args files. True),
      spawn = (\<lambda>bin args files.
        if args ! 2 = ''-c'' then (SpawnError ''spawn EAGAIN'', files)
        else (Closed (Some 0) [], files(last args \<mapsto> [0x00, 0x00, 0x00, 0x18])))\<rparr>"

text \<open>A tool of which no process can be started.\<close>

definition dead_tools :: tools where
  "dead_tools =
     \<lparr>ffmpegPath = Some ''/bin/ffmpeg'',
      probe_closes = (\<lambda>bin args files. True),
      spawn = (\<lambda>bin args files. (SpawnError ''spawn EACCES'', files))\<rparr>"

text \<open>A disk with the binary and a raw stream of two bytes.\<close>

definition raw_disk :: filesystem where
  "raw_disk = [''/bin/ffmpeg'' \<mapsto> [0x7F], ''/d/v.ts'' \<mapsto> [0x47, 0x40]]"

definition raw_world :: world where
  "raw_world = \<lparr>disk = raw_disk, console = []\<rparr>"

section \<open>The request handlers (server.js 490--654)\<close>

subsection \<open>File names (lines 497--510)\<close>

text \<open>\<^verbatim>\<open>s.replace(pat, rep)\<close> for a string pattern: the first occurrence is replaced.\<close>

fun replace_first :: "string \<Rightarrow> string \<Rightarrow> string \<Rightarrow> string" where
  "replace_first [] pat rep = (if pat = [] then rep else [])"
| "replace_first (c # s) pat rep =
     (if startsWith (c # s) pat then rep @ drop (length pat) (c # s)
      else c # replace_first s pat rep)"

text \<open>
  \<^verbatim>\<open>s.replace(/\.[^/.]+$/, '')\<close>: the pattern can only match at the last dot, and does
  so when at least one character follows it and none of them is a slash.
\<close>

definition strip_extension :: "string \<Rightarrow> string" where
  "strip_extension s =
     (let k = lastIndexOf s CHR ''.'' in
      if k \<ge> 0 \<and> nat k + 1 < length s \<and> CHR ''/'' \<notin> set (drop (nat k + 1) s)
      then take (nat k) s else s)"

text \<open>The decimal digits of a number, as a template literal writes them.\<close>

function decimal :: "nat \<Rightarrow> string" where
  "decimal n =
     (if n < 10 then [char_of (48 + n)]
      else decimal (n div 10) @ [char_of (48 + n mod 10)])"
  by pat_completeness auto
termination
  by (relation "measure id") auto

declare decimal.simps [simp del]

text \<open>Lines 498--505; \<open>timestamp\<close> is the value of \<^verbatim>\<open>Date.now()\<close>.\<close>

definition generated_name :: "nat \<Rightarrow> string \<Rightarrow> string" where
  "generated_name timestamp vodUrl =
     (let popped = replace_first (last (split_on CHR ''/'' vodUrl)) ''.m3u8'' [];
          urlPart = (if popped = [] then ''video'' else popped)
      in urlPart @ ''_'' @ decimal timestamp)"

definition base_file_name :: "nat \<Rightarrow> string \<Rightarrow> string option \<Rightarrow> string" where
  "base_file_name timestamp vodUrl fileName =
     (case fileName of
        None \<Rightarrow> generated_name timestamp vodUrl
      | Some name \<Rightarrow> if name = [] then generated_name timestamp vodUrl else strip_extension name)"

subsection \<open>The server and its answers\<close>

text \<open>
  What the handlers take from outside: the directory of line 13, \<^verbatim>\<open>path.join\<close> of Node
  (which returns a normalized path), the network, the storage, the tool, the clock, and \<^verbatim>\<open>extractTwitchM3U8\<close> (lines 272--384), which makes
  network requests only and either returns a playlist URL or throws an error with a
  message (\<open>Inl\<close>).
\<close>

record server =
  download_dir :: string
  path_join :: "string \<Rightarrow> string \<Rightarrow> string"
  network_of :: network
  storage_of :: storage
  tools_of :: tools
  clock :: nat
  extractTwitchM3U8 :: "string \<Rightarrow> string + string"

text \<open>The body of the request; a field that is absent is \<open>None\<close>.\<close>

record job =
  vodUrl :: "string option"
  fileName :: "string option"

text \<open>The errors that reach the \<^verbatim>\<open>catch\<close> of line 611.\<close>

datatype pipeline_error =
    ExtractionError string
  | HLSError hls_error
  | TsFileNotCreated
  | StatError string

text \<open>
  The answer of line 609, without its texts for the reader (\<^verbatim>\<open>message\<close>,
  \<^verbatim>\<open>playback_info\<close>) and without \<^verbatim>\<open>conversion_info\<close>.
\<close>

record success_body =
  res_path :: string
  res_filename :: string
  res_size :: nat
  res_format :: string
  res_segments_downloaded :: nat
  res_method :: string

text \<open>The answer of lines 626--642.\<close>

record failure_body =
  res_error :: pipeline_error
  res_note :: string
  possible_causes :: "string list"
  suggestions :: "string list"

text \<open>\<open>ProcessDied\<close>: an uncaught error ended the server and the client gets no answer.\<close>

datatype response =
    BadRequest string
  | Success success_body
  | Failure failure_body
  | ProcessDied string

definition failure :: "pipeline_error \<Rightarrow> failure_body" where
  "failure e =
     \<lparr>res_error = e,
      res_note = ''HLS download or MP4 conversion failed'',
      possible_causes =
        [''Invalid or expired Twitch video URL'',
         ''Video is private, deleted, or subscriber-only'',
         ''Network connectivity issues'',
         ''Twitch anti-bot protection'',
         ''FFmpeg conversion error'',
         ''Insufficient disk space''],
      suggestions =
        [''Verify the Twitch video URL is public and accessible'',
         ''Try a different video or check if it requires login'',
         ''Ensure the video ID is correct in the URL'']\<rparr>"

subsection \<open>\<^verbatim>\<open>POST /download-vod\<close> (lines 490--644)\<close>

text \<open>
  \<^verbatim>\<open>fs.unlinkSync\<close> inside its \<^verbatim>\<open>try\<close> (lines 556--561 and 617--622): when it throws, the
  \<^verbatim>\<open>catch\<close> logs a warning and the file stays.
\<close>

definition try_unlink :: "storage \<Rightarrow> string \<Rightarrow> filesystem \<Rightarrow> filesystem" where
  "try_unlink sto filePath files =
     (if unlink_fails sto filePath then files else files(filePath := None))"

text \<open>Lines 616--623: behind \<^verbatim>\<open>fs.existsSync\<close>.\<close>

definition unlink_if_exists :: "storage \<Rightarrow> string \<Rightarrow> filesystem \<Rightarrow> filesystem" where
  "unlink_if_exists sto filePath files =
     (if files filePath \<noteq> None then try_unlink sto filePath files else files)"

definition cleanup :: "storage \<Rightarrow> string list \<Rightarrow> world \<Rightarrow> world" where
  "cleanup sto paths w = w\<lparr>disk := fold (unlink_if_exists sto) paths (disk w)\<rparr>"

text \<open>
  \<^verbatim>\<open>diagnoseTsFile\<close> (lines 173--269) reads the file and writes to the console of the
  server; the \<^verbatim>\<open>catch\<close> of line 266 takes the error of \<^verbatim>\<open>statSync\<close> for a missing file and
  of \<^verbatim>\<open>spawn\<close> for a missing binary path, and line 183 returns for an empty file.
  Otherwise it awaits the probe process of lines 214--264, which has no timer: when that
  process never closes, \<^verbatim>\<open>diagnoseTsFile\<close> never returns (\<open>None\<close>). The probe is taken to
  leave the files as they are.
\<close>

definition probe_args :: "string \<Rightarrow> string list" where
  "probe_args tsPath =
     [''-v'', ''quiet'', ''-print_format'', ''json'', ''-show_format'', ''-show_streams'', tsPath]"

definition diagnoseTsFile :: "tools \<Rightarrow> string \<Rightarrow> world \<Rightarrow> world option" where
  "diagnoseTsFile t tsPath w =
     (case disk w tsPath of
        None \<Rightarrow> Some w
      | Some bytes \<Rightarrow>
          if length bytes = 0 then Some w
          else (case ffmpegPath t of
                  None \<Rightarrow> Some w
                | Some bin \<Rightarrow>
                    if probe_closes t bin (probe_args tsPath) (disk w) then Some w else None))"

text \<open>Lines 574--609: the size of the final file, or the error of \<^verbatim>\<open>statSync\<close>.\<close>

definition final_answer ::
  "string \<Rightarrow> string \<Rightarrow> string \<Rightarrow> bool \<Rightarrow> nat \<Rightarrow> world \<Rightarrow> pipeline_error + success_body" where
  "final_answer finalPath finalFileName finalFormat conversionSuccess downloaded w =
     (case disk w finalPath of
        None \<Rightarrow> Inl (StatError finalPath)
      | Some bytes \<Rightarrow>
          Inr \<lparr>res_path = finalPath, res_filename = finalFileName, res_size = length bytes,
               res_format = finalFormat, res_segments_downloaded = downloaded,
               res_method = (if conversionSuccess then ''HLS download + FFmpeg conversion''
                             else ''HLS download (conversion fallback)'')\<rparr>)"

text \<open>Lines 539--609, after the diagnosis has returned.\<close>

definition convert_and_answer ::
  "server \<Rightarrow> string \<Rightarrow> string \<Rightarrow> string \<Rightarrow> string \<Rightarrow> nat \<Rightarrow> world \<Rightarrow>
     (pipeline_error + success_body) \<times> world" where
  "convert_and_answer srv tsFileName mp4FileName tsPath mp4Path downloaded w =
     (case convertTsToMp4 (tools_of srv) tsPath mp4Path w of
        (Inr u, w1) \<Rightarrow>
          (if disk w1 mp4Path \<noteq> None then
             (let w2 = w1\<lparr>disk := try_unlink (storage_of srv) tsPath (disk w1)\<rparr>
              in (final_answer mp4Path mp4FileName ''MP4'' True downloaded w2, w2))
           else (final_answer mp4Path mp4FileName ''MP4'' False downloaded w1, w1))
      | (Inl e, w1) \<Rightarrow> (final_answer tsPath tsFileName ''TS'' False downloaded w1, w1))"

text \<open>Lines 528--609, after the download has returned the number of segments.\<close>

definition convert_stage ::
  "server \<Rightarrow> string \<Rightarrow> string \<Rightarrow> string \<Rightarrow> string \<Rightarrow> nat \<Rightarrow> world \<Rightarrow>
     ((pipeline_error + success_body) \<times> world) option" where
  "convert_stage srv tsFileName mp4FileName tsPath mp4Path downloaded w =
     (if disk w tsPath = None then Some (Inl TsFileNotCreated, w)
      else map_option
             (convert_and_answer srv tsFileName mp4FileName tsPath mp4Path downloaded)
             (diagnoseTsFile (tools_of srv) tsPath w))"

text \<open>What the handler does with what \<^verbatim>\<open>downloadHLS\<close> left, lines 526--609.\<close>

fun after_download ::
  "server \<Rightarrow> string \<Rightarrow> string \<Rightarrow> string \<Rightarrow> string \<Rightarrow> world \<Rightarrow>
     (hls_error + nat) settled \<times> filesystem \<Rightarrow>
     ((pipeline_error + success_body) settled \<times> world) option" where
  "after_download srv tsFileName mp4FileName tsPath mp4Path w (Uncaught msg, files) =
     Some (Uncaught msg, w\<lparr>disk := files\<rparr>)"
| "after_download srv tsFileName mp4FileName tsPath mp4Path w (Settled (Inl e), files) =
     Some (Settled (Inl (HLSError e)), w\<lparr>disk := files\<rparr>)"
| "after_download srv tsFileName mp4FileName tsPath mp4Path w (Settled (Inr downloaded), files) =
     map_option (\<lambda>(r, w'). (Settled r, w'))
       (convert_stage srv tsFileName mp4FileName tsPath mp4Path downloaded (w\<lparr>disk := files\<rparr>))"

text \<open>Lines 525--609: the download, then the rest.\<close>

definition download_stage ::
  "server \<Rightarrow> string \<Rightarrow> string \<Rightarrow> string \<Rightarrow> string \<Rightarrow> string \<Rightarrow> world \<Rightarrow>
     ((pipeline_error + success_body) settled \<times> world) option" where
  "download_stage srv m3u8Url tsFileName mp4FileName tsPath mp4Path w =
     Option.bind (downloadHLS (network_of srv) (storage_of srv) m3u8Url tsPath (disk w))
       (after_download srv tsFileName mp4FileName tsPath mp4Path w)"

text \<open>The test of line 519.\<close>

definition is_twitch_page :: "string \<Rightarrow> bool" where
  "is_twitch_page source = (str_includes source ''twitch.tv'' \<and> \<not> str_includes source ''.m3u8'')"

text \<open>The body of the \<^verbatim>\<open>try\<close>, lines 512--609.\<close>

definition pipeline ::
  "server \<Rightarrow> string \<Rightarrow> string \<Rightarrow> string \<Rightarrow> string \<Rightarrow> string \<Rightarrow> world \<Rightarrow>
     ((pipeline_error + success_body) settled \<times> world) option" where
  "pipeline srv source tsFileName mp4FileName tsPath mp4Path w =
     (case (if is_twitch_page source then extractTwitchM3U8 srv source else Inr source) of
        Inl msg \<Rightarrow> Some (Settled (Inl (ExtractionError msg)), w)
      | Inr m3u8Url \<Rightarrow> download_stage srv m3u8Url tsFileName mp4FileName tsPath mp4Path w)"

definition ts_path :: "server \<Rightarrow> string \<Rightarrow> job \<Rightarrow> string" where
  "ts_path srv source req =
     path_join srv (download_dir srv) (base_file_name (clock srv) source (fileName req) @ ''.ts'')"

definition mp4_path :: "server \<Rightarrow> string \<Rightarrow> job \<Rightarrow> string" where
  "mp4_path srv source req =
     path_join srv (download_dir srv) (base_file_name (clock srv) source (fileName req) @ ''.mp4'')"

text \<open>
  The answer to the client: line 609 after the \<^verbatim>\<open>try\<close> has run to its end, lines 611--643
  after it has thrown, none after an uncaught error.
\<close>

fun answer ::
  "storage \<Rightarrow> string \<Rightarrow> string \<Rightarrow> (pipeline_error + success_body) settled \<times> world \<Rightarrow>
     response \<times> world" where
  "answer sto tsPath mp4Path (Settled (Inr body), w) = (Success body, w)"
| "answer sto tsPath mp4Path (Settled (Inl e), w) =
     (Failure (failure e), cleanup sto [tsPath, mp4Path] w)"
| "answer sto tsPath mp4Path (Uncaught msg, w) = (ProcessDied msg, w)"

text \<open>
  The handler, for a source that is given: \<open>None\<close> when \<^verbatim>\<open>downloadHLS\<close> or
  \<^verbatim>\<open>diagnoseTsFile\<close> never returns.
\<close>

definition run_job :: "server \<Rightarrow> string \<Rightarrow> job \<Rightarrow> world \<Rightarrow> (response \<times> world) option" where
  "run_job srv source req w =
     (let baseFileName = base_file_name (clock srv) source (fileName req);
          tsFileName = baseFileName @ ''.ts'';
          mp4FileName = baseFileName @ ''.mp4'';
          tsPath = path_join srv (download_dir srv) tsFileName;
          mp4Path = path_join srv (download_dir srv) mp4FileName
      in map_option (answer (storage_of srv) tsPath mp4Path)
           (pipeline srv source tsFileName mp4FileName tsPath mp4Path w))"

definition download_vod :: "server \<Rightarrow> job \<Rightarrow> world \<Rightarrow> (response \<times> world) option" where
  "download_vod srv req w =
     (case vodUrl req of
        None \<Rightarrow> Some (BadRequest ''vodUrl is required'', w)
      | Some source \<Rightarrow>
          if source = [] then Some (BadRequest ''vodUrl is required'', w)
          else run_job srv source req w)"

subsection \<open>\<^verbatim>\<open>GET /vod/:fileName\<close> (lines 647--654)\<close>









section \<open>Reference notions and examples for the handlers' properties\<close>

text \<open>
  An example of \<^verbatim>\<open>path.join\<close>, for an absolute directory: the two parts joined, with
  the empty, \<^verbatim>\<open>.\<close> and \<^verbatim>\<open>..\<close> segments resolved as Node resolves them on POSIX.
\<close>

fun resolve_dots :: "string list \<Rightarrow> string list \<Rightarrow> string list" where
  "resolve_dots kept [] = rev kept"
| "resolve_dots kept (seg # rest) =
     (if seg = [] \<or> seg = ''.'' then resolve_dots kept rest
      else if seg = ''..'' then resolve_dots (tl kept) rest
      else resolve_dots (seg # kept) rest)"

definition posix_join :: "string \<Rightarrow> string \<Rightarrow> string" where
  "posix_join dir name =
     concat (map (\<lambda>seg. CHR ''/'' # seg) (resolve_dots [] (split_on CHR ''/'' (dir @ ''/'' @ name))))"

text \<open>A server whose only playlist has one segment, the stream of which breaks.\<close>

definition broken_stream_net :: network where
  "broken_stream_net =
     \<lparr>get_text = (\<lambda>r. if url r = ''http://h/p/index.m3u8'' then Inr ''#EXTM3U\<newline>seg0.ts''
                        else Inl ''Request failed with status code 404''),
      get_stream = (\<lambda>i r. StreamFailed [0x47, 0x40] ''aborted'')\<rparr>"

definition extractTwitchM3U8_message :: "server \<Rightarrow> string" where
  "extractTwitchM3U8_message srv = ''Twitch M3U8 extraction failed: Could not extract video ID from Twitch URL. Supported formats: twitch.tv/videos/123456789''"

definition example_server :: server where
  "example_server =
     \<lparr>download_dir = ''/srv/app/downloads'',
      path_join = posix_join,
      network_of = broken_stream_net,
      storage_of = reliable,
      tools_of = picky_tools,
      clock = 17,
      extractTwitchM3U8 = (\<lambda>source. Inl ''Twitch M3U8 extraction failed: Could not extract video ID from Twitch URL. Supported formats: twitch.tv/videos/123456789'')\<rparr>"

text \<open>A storage on which no file can be removed.\<close>

definition locked :: storage where
  "locked =
     \<lparr>open_error = (\<lambda>p. None), finish_error = (\<lambda>p. None),
      unlink_fails = (\<lambda>p. True), is_directory = (\<lambda>p. False)\<rparr>"

definition locked_server :: server where
  "locked_server = example_server\<lparr>storage_of := locked\<rparr>"

definition clip_job :: job where
  "clip_job = \<lparr>vodUrl = Some ''http://h/p/index.m3u8'', fileName = Some ''clip.mp4''\<rparr>"

definition page_job :: job where
  "page_job = \<lparr>vodUrl = Some ''https://example.com/watch'', fileName = Some ''clip.mp4''\<rparr>"

definition twitch_job :: job where
  "twitch_job = \<lparr>vodUrl = Some ''https://www.twitch.tv/directory'', fileName = Some ''clip.mp4''\<rparr>"

definition server_disk :: filesystem where
  "server_disk =
     [''/bin/ffmpeg'' \<mapsto> [0x7F], ''/srv/app/server.js'' \<mapsto> [0x63, 0x6F],
      ''/srv/app/downloads/old.mp4'' \<mapsto> [0x00, 0x18],
      ''/srv/app/downloads/.secret.mp4'' \<mapsto> [0x00, 0x19]]"

definition server_world :: world where
  "server_world = \<lparr>disk = server_disk, console = []\<rparr>"

section \<open>Properties of the segment downloader\<close>

lemma segment_loop_unfold:
  "segment_loop net segments i st =
     (if i < length segments then
        segment_loop net segments (i + 1)
          (download_segment (get_stream net i (segment_request (segments ! i))) st)
      else st)"
  by (rule segment_loop.simps)

lemma written_download_segment:
  "written (download_segment out st) = written st @ delivered out"
  by (cases out) (simp_all add: download_segment_def)

lemma count_download_segment:
  "downloadedSegments (download_segment out st) =
     downloadedSegments st + (if succeeded out then 1 else 0)"
  by (cases out) (simp_all add: download_segment_def)

lemma segment_loop_written:
  "written (segment_loop net segments i st) =
     written st @ concat (map (\<lambda>j. delivered (get_stream net j (segment_request (segments ! j))))
       [i..<length segments])"
proof (induction net segments i st rule: segment_loop.induct)
  case (1 net segments i st)
  show ?case
  proof (cases "i < length segments")
    case True
    with 1 show ?thesis
      by (subst segment_loop_unfold) (simp add: upt_conv_Cons written_download_segment)
  next
    case False
    then show ?thesis by (subst segment_loop_unfold) simp
  qed
qed

lemma segment_loop_count:
  "downloadedSegments (segment_loop net segments i st) =
     downloadedSegments st +
     length (filter (\<lambda>j. succeeded (get_stream net j (segment_request (segments ! j))))
       [i..<length segments])"
proof (induction net segments i st rule: segment_loop.induct)
  case (1 net segments i st)
  show ?case
  proof (cases "i < length segments")
    case True
    with 1 show ?thesis
      by (subst segment_loop_unfold) (simp add: upt_conv_Cons count_download_segment)
  next
    case False
    then show ?thesis by (subst segment_loop_unfold) simp
  qed
qed

lemma download_segments_file:
  "snd (download_segments net sto segments outputPath files) outputPath =
     (if open_error sto outputPath = None
      then Some (concat (map delivered (outcomes net segments)))
      else files outputPath)"
  by (auto simp: download_segments_def Let_def segment_loop_written outcomes_def comp_def
      split: option.splits)

lemma download_segments_other:
  "p \<noteq> outputPath \<Longrightarrow> snd (download_segments net sto segments outputPath files) p = files p"
  by (simp add: download_segments_def Let_def split: option.splits)

lemma download_segments_result:
  "fst (download_segments net sto segments outputPath files) =
     (case open_error sto outputPath of
        Some msg \<Rightarrow> Uncaught msg
      | None \<Rightarrow>
          (case finish_error sto outputPath of
             Some msg \<Rightarrow> Settled (Inl (WriteStreamError msg))
           | None \<Rightarrow>
               if succeeded_count net segments = 0 then Settled (Inl NoSegmentsDownloaded)
               else Settled (Inr (succeeded_count net segments))))"
  by (simp add: download_segments_def Let_def segment_loop_count succeeded_count_def
      outcomes_def filter_map comp_def split: option.splits)

lemma concat_delivered_clean:
  "list_all fails_before_data outs \<Longrightarrow>
     concat (map delivered outs) = concat (map body_of (filter succeeded outs))"
proof (induction outs)
  case Nil
  then show ?case by simp
next
  case (Cons out outs)
  then show ?case by (cases out) (auto simp: fails_before_data_def)
qed

lemma outcomes_two: "outcomes net [a, b] =
  [get_stream net 0 (segment_request a), get_stream net 1 (segment_request b)]"
  by (simp add: outcomes_def upt_conv_Cons)

lemma outcomes_three: "outcomes net [a, b, c] =
  [get_stream net 0 (segment_request a), get_stream net 1 (segment_request b),
   get_stream net 2 (segment_request c)]"
  by (simp add: outcomes_def upt_conv_Cons eval_nat_numeral)

lemma reliable_simps:
  "open_error reliable p = None" "finish_error reliable p = None"
  "unlink_fails reliable p = False" "is_directory reliable p = False"
  by (simp_all add: reliable_def)

text \<open>
  C1, as stated: the output file holds the concatenation of the bodies of the segments
  that succeeded, a failed segment contributing no byte. It fails when a stream breaks
  after \<^verbatim>\<open>pipe\<close> has written some of its chunks: those bytes stay in the file.
\<close>

theorem failed_stream_leaves_bytes:
  "snd (download_segments aborting_net reliable two_segments ''out.ts'' Map.empty) ''out.ts''
     = Some [0x47, 0x40, 0x47, 0x41]
   \<and> succeeded_bodies aborting_net two_segments = [0x47, 0x41]
   \<and> snd (download_segments aborting_net reliable two_segments ''out.ts'' Map.empty) ''out.ts''
       \<noteq> Some (succeeded_bodies aborting_net two_segments)"
  by (simp add: download_segments_file succeeded_bodies_def outcomes_two two_segments_def
      aborting_net_def reliable_simps)

text \<open>
  C1, amended: the bytes of the output file are the in-order concatenation, over all
  segments of the list, of the bytes each segment's stream delivered: the whole body of a
  segment that succeeded, nothing for a segment whose request failed, and the chunks
  already piped for a segment whose stream failed. Nothing is duplicated or reordered.
  When no stream fails after delivering bytes, this is the concatenation of the bodies of
  the segments that succeeded. (A file that cannot be opened is left as it was.)
\<close>

theorem output_is_delivered_bytes:
  "snd (download_segments net sto segments outputPath files) outputPath
     = (if open_error sto outputPath = None
        then Some (concat (map delivered (outcomes net segments)))
        else files outputPath)
   \<and> (clean_failures net segments \<longrightarrow>
        snd (download_segments net sto segments outputPath files) outputPath
          = (if open_error sto outputPath = None
             then Some (succeeded_bodies net segments)
             else files outputPath))"
  by (simp add: download_segments_file succeeded_bodies_def clean_failures_def
      concat_delivered_clean)

theorem output_is_delivered_bytes_witness:
  "clean_failures lossy_net three_segments
   \<and> snd (download_segments lossy_net reliable three_segments ''out.ts'' Map.empty) ''out.ts''
       = Some [0x47, 0x00, 0x47, 0x02]
   \<and> succeeded_bodies lossy_net three_segments = [0x47, 0x00, 0x47, 0x02]"
proof -
  have clean: "clean_failures lossy_net three_segments"
    by (simp add: clean_failures_def outcomes_three three_segments_def lossy_net_def
        fails_before_data_def)
  have bodies: "succeeded_bodies lossy_net three_segments = [0x47, 0x00, 0x47, 0x02]"
    by (simp add: succeeded_bodies_def outcomes_three three_segments_def lossy_net_def)
  from output_is_delivered_bytes [of lossy_net reliable three_segments "''out.ts''" Map.empty]
    clean bodies
  show ?thesis by (simp add: outcomes_three three_segments_def lossy_net_def reliable_simps)
qed

lemma lossy_count: "succeeded_count lossy_net three_segments = 2"
  by (simp add: succeeded_count_def outcomes_three three_segments_def lossy_net_def)

text \<open>
  C3, as stated: with at least one segment, the downloader fails if and only if no
  segment succeeded, and returns the count when some did. It fails on the write stream:
  here two of three segments succeed, the stream emits \<^verbatim>\<open>error\<close> after \<^verbatim>\<open>end()\<close>, the
  promise of lines 471--474 rejects, and the downloader fails with that error.
\<close>

theorem write_error_fails_despite_segments:
  "length three_segments = 3
   \<and> succeeded_count lossy_net three_segments = 2
   \<and> fst (download_segments lossy_net full_disk three_segments ''out.ts'' Map.empty)
       = Settled (Inl (WriteStreamError ''ENOSPC: no space left on device, write''))"
proof -
  have len: "length three_segments = 3"
    by (simp add: three_segments_def)
  have full: "open_error full_disk ''out.ts'' = None"
    "finish_error full_disk ''out.ts'' = Some ''ENOSPC: no space left on device, write''"
    by (simp_all add: full_disk_def)
  from len lossy_count full show ?thesis
    by (simp add: download_segments_result)
qed

text \<open>
  C3, amended: for a segment list of length at least one whose write stream opens and
  reaches \<^verbatim>\<open>finish\<close>, the downloader fails with the error "No segments were downloaded
  successfully" if and only if no segment succeeded, and it fails in no other way; when
  at least one segment succeeded (also when some did not) it returns the number of
  segments that succeeded. When the write stream opens and ends in \<^verbatim>\<open>error\<close>, the
  downloader fails with that error, whatever the number.
\<close>

theorem downloader_fails_iff_none_succeeded:
  assumes "length segments \<ge> 1" and "open_error sto outputPath = None"
  shows "(finish_error sto outputPath = None \<longrightarrow>
            (fst (download_segments net sto segments outputPath files)
                = Settled (Inl NoSegmentsDownloaded)
              \<longleftrightarrow> succeeded_count net segments = 0)
          \<and> ((\<exists>e. fst (download_segments net sto segments outputPath files) = Settled (Inl e))
              \<longleftrightarrow> succeeded_count net segments = 0)
          \<and> (1 \<le> succeeded_count net segments
                \<and> succeeded_count net segments < length segments
              \<longrightarrow> fst (download_segments net sto segments outputPath files)
                    = Settled (Inr (succeeded_count net segments)))
          \<and> (1 \<le> succeeded_count net segments
              \<longrightarrow> fst (download_segments net sto segments outputPath files)
                    = Settled (Inr (succeeded_count net segments))))
       \<and> (\<forall>msg. finish_error sto outputPath = Some msg \<longrightarrow>
            fst (download_segments net sto segments outputPath files)
              = Settled (Inl (WriteStreamError msg)))"
  using assms(2) by (simp add: download_segments_result)

theorem downloader_fails_iff_none_succeeded_witness:
  "length three_segments \<ge> 1
   \<and> succeeded_count lossy_net three_segments = 2
   \<and> fst (download_segments lossy_net reliable three_segments ''out.ts'' Map.empty)
       = Settled (Inr 2)
   \<and> fst (download_segments lossy_net full_disk three_segments ''out.ts'' Map.empty)
       = Settled (Inl (WriteStreamError ''ENOSPC: no space left on device, write''))"
proof -
  have len: "length three_segments \<ge> 1"
    by (simp add: three_segments_def)
  have ok: "open_error reliable ''out.ts'' = None" "finish_error reliable ''out.ts'' = None"
    by (simp_all add: reliable_simps)
  have full: "open_error full_disk ''out.ts'' = None"
    "finish_error full_disk ''out.ts'' = Some ''ENOSPC: no space left on device, write''"
    by (simp_all add: full_disk_def)
  from downloader_fails_iff_none_succeeded [OF len ok(1), of lossy_net Map.empty]
    downloader_fails_iff_none_succeeded [OF len full(1), of lossy_net Map.empty]
    lossy_count len ok(2) full(2)
  show ?thesis by simp
qed

section \<open>Properties of the playlist parser\<close>

lemma extract_segments_eq:
  "extract_segments baseUrl lines acc = acc @ map (resolve_url baseUrl) (filter is_segment_line lines)"
  by (induction lines arbitrary: acc) auto

lemma is_segment_line_eq: "is_segment_line = (\<lambda>line. line \<noteq> [] \<and> \<not> startsWith line ''#'' \<and> trim line \<noteq> [])"
  by (auto simp: is_segment_line_def fun_eq_iff)

lemma extract_segments_lines:
  "extract_segments baseUrl lines [] = map (resolve_url baseUrl) (segment_lines lines)"
  by (simp add: extract_segments_eq segment_lines_def is_segment_line_eq)

lemma find_stream_None_from:
  "(\<forall>j. i \<le> j \<and> j < length lines \<longrightarrow> \<not> (str_includes (lines ! j) stream_inf \<and> usable_stream_at lines (j + 1)))
     \<Longrightarrow> find_stream lines i = None"
proof (induction lines i rule: find_stream.induct)
  case (1 lines i)
  show ?case
  proof (cases "i < length lines")
    case True
    with 1 show ?thesis
      by (subst find_stream.simps) auto
  next
    case False
    then show ?thesis by (subst find_stream.simps) simp
  qed
qed

lemma find_stream_None: "no_usable_variant lines \<Longrightarrow> find_stream lines 0 = None"
  by (rule find_stream_None_from) (auto simp: no_usable_variant_def list_all_iff)

lemma downloadHLS_media:
  assumes "get_text net (playlist_request m3u8Url) = Inr playlist"
    and "\<not> isMasterPlaylist (playlist_lines playlist) \<or> find_stream (playlist_lines playlist) 0 = None"
  shows "downloadHLS net sto m3u8Url outputPath files =
     Some (wrap_error (download_media net sto (baseUrl_of m3u8Url) (playlist_lines playlist)
       outputPath files))"
  using assms by (subst downloadHLS.simps) (auto simp: Let_def)












text \<open>
  C2, as stated: a master playlist in which no usable line follows a stream-info marker
  makes the parser fail. It does not: after the loop of lines 412--421 the code goes on
  to line 425 and reads the text as a media playlist. Here the marker is followed by a
  comment, and the line after it is downloaded as the only segment.
\<close>

theorem master_without_variant_downloads:
  "isMasterPlaylist (playlist_lines commented_master)
   \<and> no_usable_variant (playlist_lines commented_master)
   \<and> downloadHLS (playlist_net commented_master) reliable ''http://h/p/index.m3u8'' ''out.ts'' Map.empty
       = Some (Settled (Inr 1), [''out.ts'' \<mapsto> [0x47, 0x00]])"
proof -
  have master: "isMasterPlaylist (playlist_lines commented_master)"
    by (simp add: commented_master_def playlist_lines_def isMasterPlaylist_def stream_inf_def
        startsWith_def)
  have none: "no_usable_variant (playlist_lines commented_master)"
    by (simp add: commented_master_def playlist_lines_def no_usable_variant_def stream_inf_def
        startsWith_def usable_stream_at_def upt_conv_Cons)
  have get: "get_text (playlist_net commented_master) (playlist_request ''http://h/p/index.m3u8'')
      = Inr commented_master"
    by (simp add: playlist_net_def playlist_request_def)
  have segs: "extract_segments (baseUrl_of ''http://h/p/index.m3u8'') (playlist_lines commented_master) []
      = [''http://h/p/low/index.m3u8'']"
    by (simp add: commented_master_def playlist_lines_def baseUrl_of_def substring0_def
        is_segment_line_def startsWith_def trim_def is_ws_def resolve_url_def)
  have dl: "download_segments (playlist_net commented_master) reliable [''http://h/p/low/index.m3u8''] ''out.ts'' Map.empty
      = (Settled (Inr 1), [''out.ts'' \<mapsto> [0x47, 0x00]])"
    by (simp add: download_segments_def Let_def segment_loop_unfold [of _ _ 0]
        segment_loop_unfold [of _ _ 1] segment_loop_unfold [of _ _ "Suc 0"] download_segment_def playlist_net_def
        reliable_simps)
  have "downloadHLS (playlist_net commented_master) reliable ''http://h/p/index.m3u8'' ''out.ts'' Map.empty
      = Some (wrap_error (download_media (playlist_net commented_master) reliable
          (baseUrl_of ''http://h/p/index.m3u8'') (playlist_lines commented_master) ''out.ts'' Map.empty))"
    using get none by (simp add: downloadHLS_media find_stream_None)
  with master none segs dl show ?thesis
    by (simp add: download_media_def)
qed

text \<open>
  C2, amended: when the parser is given a master playlist in which no usable variant
  line follows any marker, and the text has no line that is non-empty, not a comment
  and not white space only, it fails with the error "No segments found in playlist"
  (wrapped by the handler of line 485) and leaves the file system as it was. The code
  has no error of its own for a missing variant.
\<close>

theorem master_without_variant_or_segment_fails:
  assumes "get_text net (playlist_request m3u8Url) = Inr playlist"
    and "isMasterPlaylist (playlist_lines playlist)"
    and "no_usable_variant (playlist_lines playlist)"
    and "segment_lines (playlist_lines playlist) = []"
  shows "downloadHLS net sto m3u8Url outputPath files
           = Some (Settled (Inl (HLSDownloadFailed NoSegmentsFound)), files)"
proof -
  have "downloadHLS net sto m3u8Url outputPath files
      = Some (wrap_error (download_media net sto (baseUrl_of m3u8Url) (playlist_lines playlist)
          outputPath files))"
    using assms(1,3) by (simp add: downloadHLS_media find_stream_None)
  with assms(4) show ?thesis
    by (simp add: download_media_def extract_segments_lines)
qed

theorem master_without_variant_or_segment_fails_witness:
  "isMasterPlaylist (playlist_lines dangling_master)
   \<and> no_usable_variant (playlist_lines dangling_master)
   \<and> segment_lines (playlist_lines dangling_master) = []
   \<and> downloadHLS (playlist_net dangling_master) reliable ''http://h/p/index.m3u8'' ''out.ts'' Map.empty
       = Some (Settled (Inl (HLSDownloadFailed NoSegmentsFound)), Map.empty)"
proof -
  have get: "get_text (playlist_net dangling_master) (playlist_request ''http://h/p/index.m3u8'')
      = Inr dangling_master"
    by (simp add: playlist_net_def playlist_request_def)
  have master: "isMasterPlaylist (playlist_lines dangling_master)"
    by (simp add: dangling_master_def playlist_lines_def isMasterPlaylist_def stream_inf_def
        startsWith_def)
  have none: "no_usable_variant (playlist_lines dangling_master)"
    by (simp add: dangling_master_def playlist_lines_def no_usable_variant_def stream_inf_def
        startsWith_def usable_stream_at_def upt_conv_Cons)
  have empty: "segment_lines (playlist_lines dangling_master) = []"
    by (simp add: dangling_master_def playlist_lines_def segment_lines_def startsWith_def)
  from master_without_variant_or_segment_fails [OF get master none empty, of reliable "''out.ts''" Map.empty]
    master none empty
  show ?thesis by simp
qed

section \<open>Properties of the converter\<close>

lemma tried_append: "tried (xs @ ys) = tried xs @ tried ys"
  by (induction xs rule: tried.induct) simp_all

lemma reported_append: "reported (xs @ ys) = reported xs @ reported ys"
  by (induction xs rule: reported.induct) simp_all

lemma failed_append: "failed (xs @ ys) = failed xs @ failed ys"
  by (induction xs rule: failed.induct) simp_all

text \<open>
  \<^verbatim>\<open>runFFmpeg\<close> reads the files only: its result and the files it leaves are those of
  the strategy run on the same files, and it adds no strategy line to the console.
\<close>

lemma runFFmpeg_attempt:
  "\<exists>evs. tried evs = [] \<and> reported evs = [] \<and> failed evs = [] \<and>
     runFFmpeg t inputPath outputPath (strategy_args s inputPath outputPath) w =
       (fst (attempt t inputPath outputPath s (disk w)),
        w\<lparr>disk := snd (attempt t inputPath outputPath s (disk w)), console := console w @ evs\<rparr>)"
proof (cases "disk w inputPath = None")
  case True
  then have "runFFmpeg t inputPath outputPath (strategy_args s inputPath outputPath) w =
       (fst (attempt t inputPath outputPath s (disk w)),
        w\<lparr>disk := snd (attempt t inputPath outputPath s (disk w)), console := console w @ []\<rparr>)"
    by (simp add: runFFmpeg_def attempt_def)
  then show ?thesis by (intro exI [of _ "[]"]) simp
next
  case input: False
  show ?thesis
  proof (cases "ffmpegPath t")
    case None
    with input have "runFFmpeg t inputPath outputPath (strategy_args s inputPath outputPath) w =
       (fst (attempt t inputPath outputPath s (disk w)),
        w\<lparr>disk := snd (attempt t inputPath outputPath s (disk w)), console := console w @ []\<rparr>)"
      by (simp add: runFFmpeg_def attempt_def)
    then show ?thesis by (intro exI [of _ "[]"]) simp
  next
    case (Some bin)
    show ?thesis
    proof (cases "bin = [] \<or> disk w bin = None")
      case True
      with input Some have "runFFmpeg t inputPath outputPath (strategy_args s inputPath outputPath) w =
         (fst (attempt t inputPath outputPath s (disk w)),
          w\<lparr>disk := snd (attempt t inputPath outputPath s (disk w)), console := console w @ []\<rparr>)"
        by (auto simp: runFFmpeg_def attempt_def)
      then show ?thesis by (intro exI [of _ "[]"]) simp
    next
      case False
      let ?args = "strategy_args s inputPath outputPath"
      from input obtain ib where ib: "disk w inputPath = Some ib" by auto
      from False obtain bb where bb: "disk w bin = Some bb" and ne: "bin \<noteq> []" by auto
      obtain out files where sp: "spawn t bin ?args (disk w) = (out, files)"
        by (cases "spawn t bin ?args (disk w)")
      show ?thesis
      proof (cases out)
        case (SpawnError msg)
        with ib bb ne Some sp show ?thesis
          by (intro exI [of _ "[Spawned bin ?args]"]) (simp add: runFFmpeg_def attempt_def say_def)
      next
        case (Closed code stderr)
        with ib bb ne Some sp show ?thesis
          by (intro exI [of _ "[Spawned bin ?args]"]) (simp add: runFFmpeg_def attempt_def say_def)
      next
        case TimedOut
        with ib bb ne Some sp show ?thesis
          by (intro exI [of _ "[Spawned bin ?args, Killed]"]) (simp add: runFFmpeg_def attempt_def say_def)
      qed
    qed
  qed
qed

lemma runFFmpeg_fst:
  "fst (runFFmpeg t inputPath outputPath (strategy_args s inputPath outputPath) w) =
     fst (attempt t inputPath outputPath s (disk w))"
  using runFFmpeg_attempt [of t inputPath outputPath s w] by auto

lemma runFFmpeg_disk:
  "disk (snd (runFFmpeg t inputPath outputPath (strategy_args s inputPath outputPath) w)) =
     snd (attempt t inputPath outputPath s (disk w))"
  using runFFmpeg_attempt [of t inputPath outputPath s w] by auto

lemma runFFmpeg_tried:
  "tried (console (snd (runFFmpeg t inputPath outputPath (strategy_args s inputPath outputPath) w))) =
     tried (console w)"
  using runFFmpeg_attempt [of t inputPath outputPath s w] by (auto simp: tried_append)

lemma runFFmpeg_reported:
  "reported (console (snd (runFFmpeg t inputPath outputPath (strategy_args s inputPath outputPath) w))) =
     reported (console w)"
  using runFFmpeg_attempt [of t inputPath outputPath s w] by (auto simp: reported_append)

lemma runFFmpeg_failed:
  "failed (console (snd (runFFmpeg t inputPath outputPath (strategy_args s inputPath outputPath) w))) =
     failed (console w)"
  using runFFmpeg_attempt [of t inputPath outputPath s w] by (auto simp: failed_append)

lemma say_simps:
  "disk (say e w) = disk w"
  "tried (console (say (Trying s) w)) = tried (console w) @ [s]"
  "tried (console (say (Successful s) w)) = tried (console w)"
  "tried (console (say (StrategyFailed s err) w)) = tried (console w)"
  "tried (console (say AllFailed w)) = tried (console w)"
  "reported (console (say (Trying s) w)) = reported (console w)"
  "reported (console (say (Successful s) w)) = reported (console w) @ [s]"
  "reported (console (say (StrategyFailed s err) w)) = reported (console w)"
  "reported (console (say AllFailed w)) = reported (console w)"
  "failed (console (say (Trying s) w)) = failed (console w)"
  "failed (console (say (Successful s) w)) = failed (console w)"
  "failed (console (say (StrategyFailed s err) w)) = failed (console w) @ [(s, err)]"
  "failed (console (say AllFailed w)) = failed (console w)"
  by (simp_all add: say_def tried_append reported_append failed_append)

text \<open>The run of the converter, one case for each place where it can stop.\<close>

lemma convert_copy_ok:
  assumes "fst (attempt t i p Copy (disk w)) = Inr u"
  shows "fst (convertTsToMp4 t i p w) = Inr ()"
    and "tried (console (snd (convertTsToMp4 t i p w))) = tried (console w) @ [Copy]"
    and "reported (console (snd (convertTsToMp4 t i p w))) = reported (console w) @ [Copy]"
    and "disk (snd (convertTsToMp4 t i p w)) = snd (attempt t i p Copy (disk w))"
    and "failed (console (snd (convertTsToMp4 t i p w))) = failed (console w)"
proof -
  let ?r1 = "runFFmpeg t i p (strategy_args Copy i p) (say (Trying Copy) w)"
  have f1: "fst ?r1 = Inr u" using assms by (simp add: runFFmpeg_fst say_simps)
  then have c: "convertTsToMp4 t i p w = (Inr (), say (Successful Copy) (snd ?r1))"
    by (cases ?r1) (simp add: convertTsToMp4_def)
  show "fst (convertTsToMp4 t i p w) = Inr ()" by (simp add: c)
  show "tried (console (snd (convertTsToMp4 t i p w))) = tried (console w) @ [Copy]"
    by (simp add: c say_simps runFFmpeg_tried)
  show "reported (console (snd (convertTsToMp4 t i p w))) = reported (console w) @ [Copy]"
    by (simp add: c say_simps runFFmpeg_reported)
  show "disk (snd (convertTsToMp4 t i p w)) = snd (attempt t i p Copy (disk w))"
    by (simp add: c say_simps runFFmpeg_disk)
  show "failed (console (snd (convertTsToMp4 t i p w))) = failed (console w)"
    by (simp add: c say_simps runFFmpeg_failed)
qed

lemma convert_reencode_ok:
  assumes "fst (attempt t i p Copy (disk w)) = Inl e1"
    and "fst (attempt t i p Reencode (snd (attempt t i p Copy (disk w)))) = Inr u"
  shows "fst (convertTsToMp4 t i p w) = Inr ()"
    and "tried (console (snd (convertTsToMp4 t i p w))) = tried (console w) @ [Copy, Reencode]"
    and "reported (console (snd (convertTsToMp4 t i p w))) = reported (console w) @ [Reencode]"
    and "disk (snd (convertTsToMp4 t i p w)) =
           snd (attempt t i p Reencode (snd (attempt t i p Copy (disk w))))"
    and "failed (console (snd (convertTsToMp4 t i p w))) = failed (console w) @ [(Copy, e1)]"
proof -
  let ?r1 = "runFFmpeg t i p (strategy_args Copy i p) (say (Trying Copy) w)"
  let ?r2 = "runFFmpeg t i p (strategy_args Reencode i p)
               (say (Trying Reencode) (say (StrategyFailed Copy e1) (snd ?r1)))"
  have f1: "fst ?r1 = Inl e1" using assms(1) by (simp add: runFFmpeg_fst say_simps)
  have f2: "fst ?r2 = Inr u" using assms(2) by (simp add: runFFmpeg_fst runFFmpeg_disk say_simps)
  from f1 f2 have c: "convertTsToMp4 t i p w = (Inr (), say (Successful Reencode) (snd ?r2))"
    by (cases ?r1; cases ?r2) (simp add: convertTsToMp4_def)
  show "fst (convertTsToMp4 t i p w) = Inr ()" by (simp add: c)
  show "tried (console (snd (convertTsToMp4 t i p w))) = tried (console w) @ [Copy, Reencode]"
    by (simp add: c say_simps runFFmpeg_tried)
  show "reported (console (snd (convertTsToMp4 t i p w))) = reported (console w) @ [Reencode]"
    by (simp add: c say_simps runFFmpeg_reported)
  show "disk (snd (convertTsToMp4 t i p w)) =
           snd (attempt t i p Reencode (snd (attempt t i p Copy (disk w))))"
    by (simp add: c say_simps runFFmpeg_disk)
  show "failed (console (snd (convertTsToMp4 t i p w))) = failed (console w) @ [(Copy, e1)]"
    by (simp add: c say_simps runFFmpeg_failed)
qed

lemma convert_basic:
  assumes "fst (attempt t i p Copy (disk w)) = Inl e1"
    and "fst (attempt t i p Reencode (snd (attempt t i p Copy (disk w)))) = Inl e2"
  shows "fst (convertTsToMp4 t i p w) =
           (case fst (attempt t i p Basic
                   (snd (attempt t i p Reencode (snd (attempt t i p Copy (disk w)))))) of
              Inr u \<Rightarrow> Inr () | Inl e3 \<Rightarrow> Inl (AllStrategiesFailed e3))"
    and "tried (console (snd (convertTsToMp4 t i p w))) =
           tried (console w) @ [Copy, Reencode, Basic]"
    and "reported (console (snd (convertTsToMp4 t i p w))) =
           reported (console w) @
           (case fst (attempt t i p Basic
                   (snd (attempt t i p Reencode (snd (attempt t i p Copy (disk w)))))) of
              Inr u \<Rightarrow> [Basic] | Inl e3 \<Rightarrow> [])"
    and "disk (snd (convertTsToMp4 t i p w)) =
           snd (attempt t i p Basic
             (snd (attempt t i p Reencode (snd (attempt t i p Copy (disk w))))))"
    and "failed (console (snd (convertTsToMp4 t i p w))) =
           failed (console w) @ [(Copy, e1), (Reencode, e2)]"
proof -
  let ?r1 = "runFFmpeg t i p (strategy_args Copy i p) (say (Trying Copy) w)"
  let ?r2 = "runFFmpeg t i p (strategy_args Reencode i p)
               (say (Trying Reencode) (say (StrategyFailed Copy e1) (snd ?r1)))"
  let ?r3 = "runFFmpeg t i p (strategy_args Basic i p)
               (say (Trying Basic) (say (StrategyFailed Reencode e2) (snd ?r2)))"
  let ?a3 = "attempt t i p Basic
               (snd (attempt t i p Reencode (snd (attempt t i p Copy (disk w)))))"
  have f1: "fst ?r1 = Inl e1" using assms(1) by (simp add: runFFmpeg_fst say_simps)
  have f2: "fst ?r2 = Inl e2" using assms(2) by (simp add: runFFmpeg_fst runFFmpeg_disk say_simps)
  have f3: "fst ?r3 = fst ?a3" by (simp add: runFFmpeg_fst runFFmpeg_disk say_simps)
  from f1 f2 have c: "convertTsToMp4 t i p w =
      (case fst ?r3 of Inr u \<Rightarrow> (Inr (), say (Successful Basic) (snd ?r3))
                     | Inl e3 \<Rightarrow> (Inl (AllStrategiesFailed e3), say AllFailed (snd ?r3)))"
    by (cases ?r1; cases ?r2; cases ?r3) (simp add: convertTsToMp4_def split: sum.splits)
  show "fst (convertTsToMp4 t i p w) =
      (case fst ?a3 of Inr u \<Rightarrow> Inr () | Inl e3 \<Rightarrow> Inl (AllStrategiesFailed e3))"
    unfolding c f3 by (simp split: sum.splits)
  show "tried (console (snd (convertTsToMp4 t i p w))) = tried (console w) @ [Copy, Reencode, Basic]"
    unfolding c by (simp add: say_simps runFFmpeg_tried split: sum.splits)
  show "reported (console (snd (convertTsToMp4 t i p w))) =
      reported (console w) @ (case fst ?a3 of Inr u \<Rightarrow> [Basic] | Inl e3 \<Rightarrow> [])"
    unfolding c f3 by (simp add: say_simps runFFmpeg_reported split: sum.splits)
  show "disk (snd (convertTsToMp4 t i p w)) = snd ?a3"
    unfolding c by (simp add: say_simps runFFmpeg_disk split: sum.splits)
  show "failed (console (snd (convertTsToMp4 t i p w))) =
      failed (console w) @ [(Copy, e1), (Reencode, e2)]"
    unfolding c by (simp add: say_simps runFFmpeg_failed split: sum.splits)
qed

text \<open>When a strategy's process ends: the three ways of lines 117--150 to count as failed.\<close>

lemma attempt_closed:
  assumes "files inputPath \<noteq> None" and "ffmpegPath t = Some bin" and "bin \<noteq> []"
    and "files bin \<noteq> None"
    and "spawn t bin (strategy_args s inputPath outputPath) files = (Closed code stderr, files')"
  shows "attempt t inputPath outputPath s files = (on_close outputPath code stderr files', files')"
  using assms by (auto simp: attempt_def runFFmpeg_def say_def)

lemma attempt_spawn_error:
  assumes "files inputPath \<noteq> None" and "ffmpegPath t = Some bin" and "bin \<noteq> []"
    and "files bin \<noteq> None"
    and "spawn t bin (strategy_args s inputPath outputPath) files = (SpawnError msg, files')"
  shows "attempt t inputPath outputPath s files = (Inl (FailedToStart msg), files)"
  using assms by (auto simp: attempt_def runFFmpeg_def say_def)

lemma on_close_failed:
  "code \<noteq> Some 0 \<or> files outputPath = None \<or> files outputPath = Some [] \<Longrightarrow>
     isl (on_close outputPath code stderr files)"
  by (auto simp: on_close_def split: option.splits)

lemma on_close_ok:
  "isl (on_close outputPath code stderr files) \<longleftrightarrow>
     (code \<noteq> Some 0 \<or> files outputPath = None \<or> files outputPath = Some [])"
  by (auto simp: on_close_def split: option.splits)

text \<open>
  C4: the converter tries its strategies in the order copy, re-encode, basic, each on
  the files the one before left; it stops at the first one whose run resolves, reports
  that one on the console and resolves; it rejects, with the error of the basic run, only
  when all three runs have rejected. A run whose process ends counts as failed exactly
  when the exit code is not 0, or the output file is missing, or it has no bytes.
\<close>

theorem converter_fallback_chain:
  "(let a1 = attempt t inputPath outputPath Copy (disk w);
        a2 = attempt t inputPath outputPath Reencode (snd a1);
        a3 = attempt t inputPath outputPath Basic (snd a2);
        r = convertTsToMp4 t inputPath outputPath w
    in (case fst a1 of
          Inr u \<Rightarrow>
            fst r = Inr () \<and> disk (snd r) = snd a1
            \<and> tried (console (snd r)) = tried (console w) @ [Copy]
            \<and> reported (console (snd r)) = reported (console w) @ [Copy]
            \<and> failed (console (snd r)) = failed (console w)
        | Inl e1 \<Rightarrow>
       (case fst a2 of
          Inr u \<Rightarrow>
            fst r = Inr () \<and> disk (snd r) = snd a2
            \<and> tried (console (snd r)) = tried (console w) @ [Copy, Reencode]
            \<and> reported (console (snd r)) = reported (console w) @ [Reencode]
            \<and> failed (console (snd r)) = failed (console w) @ [(Copy, e1)]
        | Inl e2 \<Rightarrow>
       (case fst a3 of
          Inr u \<Rightarrow>
            fst r = Inr () \<and> disk (snd r) = snd a3
            \<and> tried (console (snd r)) = tried (console w) @ [Copy, Reencode, Basic]
            \<and> reported (console (snd r)) = reported (console w) @ [Basic]
            \<and> failed (console (snd r)) = failed (console w) @ [(Copy, e1), (Reencode, e2)]
        | Inl e3 \<Rightarrow>
            fst r = Inl (AllStrategiesFailed e3) \<and> disk (snd r) = snd a3
            \<and> tried (console (snd r)) = tried (console w) @ [Copy, Reencode, Basic]
            \<and> reported (console (snd r)) = reported (console w)
            \<and> failed (console (snd r)) = failed (console w) @ [(Copy, e1), (Reencode, e2)])))
       \<and> (isl (fst r) \<longleftrightarrow> isl (fst a1) \<and> isl (fst a2) \<and> isl (fst a3)))
   \<and> (\<forall>s files bin code stderr files'.
         files inputPath \<noteq> None \<and> ffmpegPath t = Some bin \<and> bin \<noteq> [] \<and> files bin \<noteq> None
         \<and> spawn t bin (strategy_args s inputPath outputPath) files = (Closed code stderr, files')
         \<longrightarrow> (isl (fst (attempt t inputPath outputPath s files))
                \<longleftrightarrow> code \<noteq> Some 0 \<or> files' outputPath = None \<or> files' outputPath = Some []))"
proof -
  let ?a1 = "attempt t inputPath outputPath Copy (disk w)"
  let ?a2 = "attempt t inputPath outputPath Reencode (snd ?a1)"
  let ?a3 = "attempt t inputPath outputPath Basic (snd ?a2)"
  have closed: "\<forall>s files bin code stderr files'.
         files inputPath \<noteq> None \<and> ffmpegPath t = Some bin \<and> bin \<noteq> [] \<and> files bin \<noteq> None
         \<and> spawn t bin (strategy_args s inputPath outputPath) files = (Closed code stderr, files')
         \<longrightarrow> (isl (fst (attempt t inputPath outputPath s files))
                \<longleftrightarrow> code \<noteq> Some 0 \<or> files' outputPath = None \<or> files' outputPath = Some [])"
    by (intro allI impI) (simp add: attempt_closed on_close_ok)
  show ?thesis
  proof (cases "fst ?a1")
    case (Inr u)
    with convert_copy_ok [OF Inr] closed show ?thesis
      by (simp add: Let_def)
  next
    case e1: (Inl e1)
    show ?thesis
    proof (cases "fst ?a2")
      case (Inr u)
      with convert_reencode_ok [OF e1 Inr] e1 closed show ?thesis
        by (simp add: Let_def)
    next
      case e2: (Inl e2)
      show ?thesis
      proof (cases "fst ?a3")
        case (Inr u)
        with convert_basic [OF e1 e2] e1 e2 closed show ?thesis
          by (simp add: Let_def)
      next
        case (Inl e3)
        with convert_basic [OF e1 e2] e1 e2 closed show ?thesis
          by (simp add: Let_def)
      qed
    qed
  qed
qed

lemma picky_attempts:
  "attempt picky_tools ''/d/v.ts'' ''/d/v.mp4'' Copy raw_disk =
     (Inl (ConversionFailed ''Input TS file appears to be corrupted or invalid'' (Some 1)
        ''Invalid data found when processing input''), raw_disk)"
  "attempt picky_tools ''/d/v.ts'' ''/d/v.mp4'' Reencode raw_disk = (Inl OutputNotCreated, raw_disk)"
  "attempt picky_tools ''/d/v.ts'' ''/d/v.mp4'' Basic raw_disk =
     (Inr (), raw_disk(''/d/v.mp4'' \<mapsto> [0x00, 0x00, 0x00, 0x18]))"
  by (simp_all add: attempt_def runFFmpeg_def picky_tools_def raw_disk_def strategy_args.simps
      say_def on_close_def errorAnalysis_def startsWith_def)

theorem converter_fallback_chain_witness:
  "fst (convertTsToMp4 picky_tools ''/d/v.ts'' ''/d/v.mp4'' raw_world) = Inr ()
   \<and> tried (console (snd (convertTsToMp4 picky_tools ''/d/v.ts'' ''/d/v.mp4'' raw_world)))
       = [Copy, Reencode, Basic]
   \<and> reported (console (snd (convertTsToMp4 picky_tools ''/d/v.ts'' ''/d/v.mp4'' raw_world)))
       = [Basic]
   \<and> failed (console (snd (convertTsToMp4 picky_tools ''/d/v.ts'' ''/d/v.mp4'' raw_world)))
       = [(Copy, ConversionFailed ''Input TS file appears to be corrupted or invalid'' (Some 1)
            ''Invalid data found when processing input''),
          (Reencode, OutputNotCreated)]
   \<and> disk (snd (convertTsToMp4 picky_tools ''/d/v.ts'' ''/d/v.mp4'' raw_world)) ''/d/v.mp4''
       = Some [0x00, 0x00, 0x00, 0x18]
   \<and> isl (fst (attempt picky_tools ''/d/v.ts'' ''/d/v.mp4'' Reencode raw_disk))"
proof -
  have sp: "raw_disk ''/d/v.ts'' \<noteq> None \<and> ffmpegPath picky_tools = Some ''/bin/ffmpeg''
      \<and> ''/bin/ffmpeg'' \<noteq> [] \<and> raw_disk ''/bin/ffmpeg'' \<noteq> None
      \<and> spawn picky_tools ''/bin/ffmpeg'' (strategy_args Reencode ''/d/v.ts'' ''/d/v.mp4'') raw_disk
          = (Closed (Some 0) [], raw_disk)
      \<and> raw_disk ''/d/v.mp4'' = None"
    by (simp add: picky_tools_def raw_disk_def strategy_args.simps)
  from converter_fallback_chain [of picky_tools "''/d/v.ts''" "''/d/v.mp4''" raw_world] sp
  show ?thesis
    by (simp add: Let_def picky_attempts raw_world_def)
qed

text \<open>
  C5, as stated: a process that cannot be started is fatal and does not move the
  converter on to the next strategy. It does move on: the rejection of line 155 is caught
  by the \<^verbatim>\<open>catch\<close> of line 32 as any other. Here the process of the copy strategy cannot be
  started, the re-encoding is tried next, and the conversion succeeds.
\<close>

theorem spawn_error_moves_to_next_strategy:
  "fst (spawn busy_tools ''/bin/ffmpeg'' (strategy_args Copy ''/d/v.ts'' ''/d/v.mp4'') raw_disk)
     = SpawnError ''spawn EAGAIN''
   \<and> fst (convertTsToMp4 busy_tools ''/d/v.ts'' ''/d/v.mp4'' raw_world) = Inr ()
   \<and> console (snd (convertTsToMp4 busy_tools ''/d/v.ts'' ''/d/v.mp4'' raw_world))
       = [Trying Copy,
          Spawned ''/bin/ffmpeg'' (strategy_args Copy ''/d/v.ts'' ''/d/v.mp4''),
          StrategyFailed Copy (FailedToStart ''spawn EAGAIN''),
          Trying Reencode,
          Spawned ''/bin/ffmpeg'' (strategy_args Reencode ''/d/v.ts'' ''/d/v.mp4''),
          Successful Reencode]"
  by (simp add: convertTsToMp4_def runFFmpeg_def busy_tools_def raw_world_def raw_disk_def
      say_def on_close_def strategy_args.simps)

text \<open>
  C5, amended: a process that cannot be started rejects the run with an error of its own
  ("Failed to start FFmpeg process") and leaves the files as they were, and it is counted
  as a strategy failure like any other: after it at the copy strategy the converter logs
  the failure and tries the re-encoding, and when the processes of all three strategies
  cannot be started the converter fails with the error of the last one.
\<close>

theorem spawn_error_is_strategy_failure:
  assumes "disk w inputPath \<noteq> None" and "ffmpegPath t = Some bin" and "bin \<noteq> []"
    and "disk w bin \<noteq> None"
  shows "(\<forall>s msg. fst (spawn t bin (strategy_args s inputPath outputPath) (disk w)) = SpawnError msg
            \<longrightarrow> attempt t inputPath outputPath s (disk w) = (Inl (FailedToStart msg), disk w))
       \<and> (\<forall>msg. fst (spawn t bin (strategy_args Copy inputPath outputPath) (disk w)) = SpawnError msg
            \<longrightarrow> (\<exists>rest. tried (console (snd (convertTsToMp4 t inputPath outputPath w)))
                          = tried (console w) @ [Copy, Reencode] @ rest)
               \<and> (\<exists>rest. failed (console (snd (convertTsToMp4 t inputPath outputPath w)))
                          = failed (console w) @ (Copy, FailedToStart msg) # rest))
       \<and> (\<forall>m1 m2 m3.
              fst (spawn t bin (strategy_args Copy inputPath outputPath) (disk w)) = SpawnError m1
            \<and> fst (spawn t bin (strategy_args Reencode inputPath outputPath) (disk w)) = SpawnError m2
            \<and> fst (spawn t bin (strategy_args Basic inputPath outputPath) (disk w)) = SpawnError m3
            \<longrightarrow> fst (convertTsToMp4 t inputPath outputPath w)
                  = Inl (AllStrategiesFailed (FailedToStart m3)))"
proof -
  have step: "attempt t inputPath outputPath s (disk w) = (Inl (FailedToStart msg), disk w)"
    if err: "fst (spawn t bin (strategy_args s inputPath outputPath) (disk w)) = SpawnError msg"
    for s msg
  proof -
    from err obtain files' where
      "spawn t bin (strategy_args s inputPath outputPath) (disk w) = (SpawnError msg, files')"
      by (cases "spawn t bin (strategy_args s inputPath outputPath) (disk w)") auto
    with assms show ?thesis by (simp add: attempt_spawn_error)
  qed
  have advance: "(\<exists>rest. tried (console (snd (convertTsToMp4 t inputPath outputPath w)))
                          = tried (console w) @ [Copy, Reencode] @ rest)
               \<and> (\<exists>rest. failed (console (snd (convertTsToMp4 t inputPath outputPath w)))
                          = failed (console w) @ (Copy, FailedToStart msg) # rest)"
    if "fst (spawn t bin (strategy_args Copy inputPath outputPath) (disk w)) = SpawnError msg"
    for msg
  proof -
    have a1: "fst (attempt t inputPath outputPath Copy (disk w)) = Inl (FailedToStart msg)"
      using step [OF that] by simp
    show ?thesis
    proof (cases "fst (attempt t inputPath outputPath Reencode
                         (snd (attempt t inputPath outputPath Copy (disk w))))")
      case (Inr u)
      from convert_reencode_ok(2,5) [OF a1 Inr] show ?thesis by simp
    next
      case (Inl e2)
      from convert_basic(2,5) [OF a1 Inl] show ?thesis by simp
    qed
  qed
  have all: "fst (convertTsToMp4 t inputPath outputPath w)
                  = Inl (AllStrategiesFailed (FailedToStart m3))"
    if "fst (spawn t bin (strategy_args Copy inputPath outputPath) (disk w)) = SpawnError m1"
      and "fst (spawn t bin (strategy_args Reencode inputPath outputPath) (disk w)) = SpawnError m2"
      and "fst (spawn t bin (strategy_args Basic inputPath outputPath) (disk w)) = SpawnError m3"
    for m1 m2 m3
  proof -
    have a1: "attempt t inputPath outputPath Copy (disk w) = (Inl (FailedToStart m1), disk w)"
      using step [OF that(1)] .
    have a2: "attempt t inputPath outputPath Reencode (disk w) = (Inl (FailedToStart m2), disk w)"
      using step [OF that(2)] .
    have a3: "attempt t inputPath outputPath Basic (disk w) = (Inl (FailedToStart m3), disk w)"
      using step [OF that(3)] .
    from convert_basic(1) [of t inputPath outputPath w "FailedToStart m1" "FailedToStart m2"]
    show ?thesis by (simp add: a1 a2 a3)
  qed
  from step advance all show ?thesis by blast
qed

theorem spawn_error_is_strategy_failure_witness:
  "raw_disk ''/d/v.ts'' \<noteq> None \<and> raw_disk ''/bin/ffmpeg'' \<noteq> None
   \<and> fst (spawn busy_tools ''/bin/ffmpeg'' (strategy_args Copy ''/d/v.ts'' ''/d/v.mp4'') raw_disk)
       = SpawnError ''spawn EAGAIN''
   \<and> attempt busy_tools ''/d/v.ts'' ''/d/v.mp4'' Copy raw_disk
       = (Inl (FailedToStart ''spawn EAGAIN''), raw_disk)
   \<and> (\<exists>rest. tried (console (snd (convertTsToMp4 busy_tools ''/d/v.ts'' ''/d/v.mp4'' raw_world)))
               = [Copy, Reencode] @ rest)
   \<and> (\<exists>rest. failed (console (snd (convertTsToMp4 busy_tools ''/d/v.ts'' ''/d/v.mp4'' raw_world)))
               = (Copy, FailedToStart ''spawn EAGAIN'') # rest)
   \<and> fst (convertTsToMp4 dead_tools ''/d/v.ts'' ''/d/v.mp4'' raw_world)
       = Inl (AllStrategiesFailed (FailedToStart ''spawn EACCES''))"
proof -
  have disk: "disk raw_world = raw_disk" "console raw_world = []"
    by (simp_all add: raw_world_def)
  have files: "raw_disk ''/d/v.ts'' \<noteq> None" "raw_disk ''/bin/ffmpeg'' \<noteq> None"
    by (simp_all add: raw_disk_def)
  have busy: "ffmpegPath busy_tools = Some ''/bin/ffmpeg''"
    "fst (spawn busy_tools ''/bin/ffmpeg'' (strategy_args Copy ''/d/v.ts'' ''/d/v.mp4'') raw_disk)
       = SpawnError ''spawn EAGAIN''"
    by (simp_all add: busy_tools_def strategy_args.simps)
  have dead: "ffmpegPath dead_tools = Some ''/bin/ffmpeg''"
    "\<And>s. fst (spawn dead_tools ''/bin/ffmpeg'' (strategy_args s ''/d/v.ts'' ''/d/v.mp4'') raw_disk)
       = SpawnError ''spawn EACCES''"
    by (simp_all add: dead_tools_def)
  have b: "disk raw_world ''/d/v.ts'' \<noteq> None" "''/bin/ffmpeg'' \<noteq> []"
    "disk raw_world ''/bin/ffmpeg'' \<noteq> None"
    using files by (simp_all add: disk)
  from spawn_error_is_strategy_failure [OF b(1) busy(1) b(2) b(3), of "''/d/v.mp4''"]
    spawn_error_is_strategy_failure [OF b(1) dead(1) b(2) b(3), of "''/d/v.mp4''"]
    busy(2) dead(2) files
  show ?thesis by (simp add: disk)
qed

section \<open>Properties of the request handlers\<close>

lemma cleanup_disk:
  "disk (cleanup sto [a, b] w) p =
     (if (p = a \<or> p = b) \<and> \<not> unlink_fails sto p then None else disk w p)"
  by (auto simp: cleanup_def unlink_if_exists_def try_unlink_def)

lemma failure_literal:
  "failure e =
     \<lparr>res_error = e,
      res_note = ''HLS download or MP4 conversion failed'',
      possible_causes =
        [''Invalid or expired Twitch video URL'',
         ''Video is private, deleted, or subscriber-only'',
         ''Network connectivity issues'',
         ''Twitch anti-bot protection'',
         ''FFmpeg conversion error'',
         ''Insufficient disk space''],
      suggestions =
        [''Verify the Twitch video URL is public and accessible'',
         ''Try a different video or check if it requires login'',
         ''Ensure the video ID is correct in the URL'']\<rparr>"
  by (simp add: failure_def)

lemma run_job_eq:
  "run_job srv source req w =
     map_option (answer (storage_of srv) (ts_path srv source req) (mp4_path srv source req))
       (pipeline srv source (base_file_name (clock srv) source (fileName req) @ ''.ts'')
          (base_file_name (clock srv) source (fileName req) @ ''.mp4'')
          (ts_path srv source req) (mp4_path srv source req) w)"
  by (simp add: run_job_def Let_def ts_path_def mp4_path_def)

lemma answer_Failure_D:
  assumes "answer sto tsPath mp4Path r = (Failure body, w')"
  shows "\<exists>e w1. r = (Settled (Inl e), w1) \<and> body = failure e
           \<and> w' = cleanup sto [tsPath, mp4Path] w1"
  using assms by (cases "(sto, tsPath, mp4Path, r)" rule: answer.cases) auto

lemma download_vod_run:
  "vodUrl req = Some source \<Longrightarrow> source \<noteq> [] \<Longrightarrow> download_vod srv req w = run_job srv source req w"
  by (simp add: download_vod_def)

lemma example_paths:
  "ts_path example_server source clip_job = ''/srv/app/downloads/clip.ts''"
  "mp4_path example_server source clip_job = ''/srv/app/downloads/clip.mp4''"
  "base_file_name (clock example_server) source (fileName clip_job) = ''clip''"
  "ts_path locked_server source clip_job = ''/srv/app/downloads/clip.ts''"
  "mp4_path locked_server source clip_job = ''/srv/app/downloads/clip.mp4''"
  "base_file_name (clock locked_server) source (fileName clip_job) = ''clip''"
  by (simp_all add: ts_path_def mp4_path_def example_server_def locked_server_def clip_job_def
      base_file_name_def strip_extension_def posix_join_def Let_def)

lemma broken_stream_download:
  assumes "open_error sto ''/srv/app/downloads/clip.ts'' = None"
    and "finish_error sto ''/srv/app/downloads/clip.ts'' = None"
  shows "downloadHLS broken_stream_net sto ''http://h/p/index.m3u8'' ''/srv/app/downloads/clip.ts''
       server_disk
     = Some (Settled (Inl (HLSDownloadFailed NoSegmentsDownloaded)),
             server_disk(''/srv/app/downloads/clip.ts'' \<mapsto> [0x47, 0x40]))"
proof -
  have get: "get_text broken_stream_net (playlist_request ''http://h/p/index.m3u8'')
      = Inr ''#EXTM3U\<newline>seg0.ts''"
    by (simp add: broken_stream_net_def playlist_request_def)
  have media: "\<not> isMasterPlaylist (playlist_lines ''#EXTM3U\<newline>seg0.ts'')"
    by (simp add: playlist_lines_def isMasterPlaylist_def stream_inf_def startsWith_def)
  have segs: "extract_segments (baseUrl_of ''http://h/p/index.m3u8'')
      (playlist_lines ''#EXTM3U\<newline>seg0.ts'') [] = [''http://h/p/seg0.ts'']"
    by (simp add: playlist_lines_def baseUrl_of_def substring0_def is_segment_line_def
        startsWith_def trim_def is_ws_def resolve_url_def)
  have dl: "download_segments broken_stream_net sto [''http://h/p/seg0.ts'']
      ''/srv/app/downloads/clip.ts'' server_disk
      = (Settled (Inl NoSegmentsDownloaded),
         server_disk(''/srv/app/downloads/clip.ts'' \<mapsto> [0x47, 0x40]))"
    using assms
    by (simp add: download_segments_def Let_def segment_loop_unfold [of _ _ 0]
        segment_loop_unfold [of _ _ "Suc 0"] download_segment_def broken_stream_net_def)
  from downloadHLS_media [OF get, of sto "''/srv/app/downloads/clip.ts''" server_disk] media
  show ?thesis
    by (simp add: download_media_def segs dl)
qed

lemma broken_stream_pipeline:
  assumes "network_of srv = broken_stream_net"
    and "open_error (storage_of srv) ''/srv/app/downloads/clip.ts'' = None"
    and "finish_error (storage_of srv) ''/srv/app/downloads/clip.ts'' = None"
  shows "pipeline srv ''http://h/p/index.m3u8'' ''clip.ts'' ''clip.mp4''
        ''/srv/app/downloads/clip.ts'' ''/srv/app/downloads/clip.mp4'' server_world
       = Some (Settled (Inl (HLSError (HLSDownloadFailed NoSegmentsDownloaded))),
               server_world\<lparr>disk := server_disk(''/srv/app/downloads/clip.ts'' \<mapsto> [0x47, 0x40])\<rparr>)"
proof -
  have page: "\<not> is_twitch_page ''http://h/p/index.m3u8''"
    by (simp add: is_twitch_page_def startsWith_def)
  show ?thesis
    using page assms(1) broken_stream_download [OF assms(2,3)]
    by (simp add: pipeline_def download_stage_def server_world_def)
qed

text \<open>
  C8, as stated: whenever the pipeline fails, the file at the \<^verbatim>\<open>.ts\<close> path and the file at
  the \<^verbatim>\<open>.mp4\<close> path are deleted before the error is returned. It fails when
  \<^verbatim>\<open>unlinkSync\<close> throws: the \<^verbatim>\<open>catch\<close> of lines 620--622 logs a warning, the file stays
  and the error is returned all the same. Here the only segment breaks after two bytes,
  the download fails, no file can be removed, and the two bytes are still at the
  \<^verbatim>\<open>.ts\<close> path when the client has its error.
\<close>

theorem failed_unlink_leaves_partial_file:
  "pipeline locked_server ''http://h/p/index.m3u8'' ''clip.ts'' ''clip.mp4''
        ''/srv/app/downloads/clip.ts'' ''/srv/app/downloads/clip.mp4'' server_world
     = Some (Settled (Inl (HLSError (HLSDownloadFailed NoSegmentsDownloaded))),
             server_world\<lparr>disk := server_disk(''/srv/app/downloads/clip.ts'' \<mapsto> [0x47, 0x40])\<rparr>)
   \<and> map_option fst (download_vod locked_server clip_job server_world)
       = Some (Failure (failure (HLSError (HLSDownloadFailed NoSegmentsDownloaded))))
   \<and> map_option (\<lambda>r. disk (snd r) ''/srv/app/downloads/clip.ts'')
         (download_vod locked_server clip_job server_world)
       = Some (Some [0x47, 0x40])"
proof -
  have srv: "network_of locked_server = broken_stream_net" "storage_of locked_server = locked"
    by (simp_all add: locked_server_def example_server_def)
  have sto: "open_error locked ''/srv/app/downloads/clip.ts'' = None"
    "finish_error locked ''/srv/app/downloads/clip.ts'' = None"
    "unlink_fails locked ''/srv/app/downloads/clip.ts''"
    by (simp_all add: locked_def)
  have pl: "pipeline locked_server ''http://h/p/index.m3u8'' ''clip.ts'' ''clip.mp4''
        ''/srv/app/downloads/clip.ts'' ''/srv/app/downloads/clip.mp4'' server_world
     = Some (Settled (Inl (HLSError (HLSDownloadFailed NoSegmentsDownloaded))),
             server_world\<lparr>disk := server_disk(''/srv/app/downloads/clip.ts'' \<mapsto> [0x47, 0x40])\<rparr>)"
    using sto(1,2) by (intro broken_stream_pipeline) (simp_all add: srv)
  have run: "download_vod locked_server clip_job server_world
      = run_job locked_server ''http://h/p/index.m3u8'' clip_job server_world"
    by (simp add: download_vod_def clip_job_def)
  from pl sto(3) show ?thesis
    by (simp add: run run_job_eq example_paths srv cleanup_disk)
qed

text \<open>
  C8, amended: whenever the pipeline throws, the handler answers with the structured
  error (the error, the note, the six possible causes and the three suggestions of lines
  626--642), after trying to remove the file at the \<^verbatim>\<open>.ts\<close> path and the file at the
  \<^verbatim>\<open>.mp4\<close> path: in the world it leaves, each of the two paths holds no file unless
  \<^verbatim>\<open>unlinkSync\<close> fails on it, in which case the file is as the failed pipeline left it;
  every other file is as the failed pipeline left it. Every structured error answer is of
  this kind.
\<close>

theorem failed_job_cleans_up:
  assumes "vodUrl req = Some source" and "source \<noteq> []"
  shows "(\<forall>e w1.
            pipeline srv source (base_file_name (clock srv) source (fileName req) @ ''.ts'')
              (base_file_name (clock srv) source (fileName req) @ ''.mp4'')
              (ts_path srv source req) (mp4_path srv source req) w = Some (Settled (Inl e), w1)
            \<longrightarrow> (\<exists>w'. download_vod srv req w
                     = Some (Failure
                         \<lparr>res_error = e,
                          res_note = ''HLS download or MP4 conversion failed'',
                          possible_causes =
                            [''Invalid or expired Twitch video URL'',
                             ''Video is private, deleted, or subscriber-only'',
                             ''Network connectivity issues'',
                             ''Twitch anti-bot protection'',
                             ''FFmpeg conversion error'',
                             ''Insufficient disk space''],
                          suggestions =
                            [''Verify the Twitch video URL is public and accessible'',
                             ''Try a different video or check if it requires login'',
                             ''Ensure the video ID is correct in the URL'']\<rparr>, w')
                   \<and> (\<forall>p. disk w' p =
                         (if (p = ts_path srv source req \<or> p = mp4_path srv source req)
                             \<and> \<not> unlink_fails (storage_of srv) p
                          then None else disk w1 p))))
       \<and> (\<forall>body w'.
            download_vod srv req w = Some (Failure body, w')
            \<longrightarrow> (\<exists>w1. pipeline srv source
                        (base_file_name (clock srv) source (fileName req) @ ''.ts'')
                        (base_file_name (clock srv) source (fileName req) @ ''.mp4'')
                        (ts_path srv source req) (mp4_path srv source req) w
                      = Some (Settled (Inl (res_error body)), w1)
                    \<and> (\<forall>p. disk w' p =
                          (if (p = ts_path srv source req \<or> p = mp4_path srv source req)
                              \<and> \<not> unlink_fails (storage_of srv) p
                           then None else disk w1 p)))
               \<and> res_note body = ''HLS download or MP4 conversion failed''
               \<and> possible_causes body =
                    [''Invalid or expired Twitch video URL'',
                     ''Video is private, deleted, or subscriber-only'',
                     ''Network connectivity issues'',
                     ''Twitch anti-bot protection'',
                     ''FFmpeg conversion error'',
                     ''Insufficient disk space'']
               \<and> suggestions body =
                    [''Verify the Twitch video URL is public and accessible'',
                     ''Try a different video or check if it requires login'',
                     ''Ensure the video ID is correct in the URL''])"
proof (intro conjI allI impI)
  fix e w1
  assume "pipeline srv source (base_file_name (clock srv) source (fileName req) @ ''.ts'')
              (base_file_name (clock srv) source (fileName req) @ ''.mp4'')
              (ts_path srv source req) (mp4_path srv source req) w = Some (Settled (Inl e), w1)"
  then have "download_vod srv req w =
      Some (Failure (failure e),
            cleanup (storage_of srv) [ts_path srv source req, mp4_path srv source req] w1)"
    using assms by (simp add: download_vod_run run_job_eq)
  then show "\<exists>w'. download_vod srv req w
                     = Some (Failure
                         \<lparr>res_error = e,
                          res_note = ''HLS download or MP4 conversion failed'',
                          possible_causes =
                            [''Invalid or expired Twitch video URL'',
                             ''Video is private, deleted, or subscriber-only'',
                             ''Network connectivity issues'',
                             ''Twitch anti-bot protection'',
                             ''FFmpeg conversion error'',
                             ''Insufficient disk space''],
                          suggestions =
                            [''Verify the Twitch video URL is public and accessible'',
                             ''Try a different video or check if it requires login'',
                             ''Ensure the video ID is correct in the URL'']\<rparr>, w')
                   \<and> (\<forall>p. disk w' p =
                         (if (p = ts_path srv source req \<or> p = mp4_path srv source req)
                             \<and> \<not> unlink_fails (storage_of srv) p
                          then None else disk w1 p))"
    by (simp add: cleanup_disk failure_literal)
next
  fix body w'
  assume "download_vod srv req w = Some (Failure body, w')"
  then have "run_job srv source req w = Some (Failure body, w')"
    using assms by (simp add: download_vod_run)
  then obtain r where r: "pipeline srv source
        (base_file_name (clock srv) source (fileName req) @ ''.ts'')
        (base_file_name (clock srv) source (fileName req) @ ''.mp4'')
        (ts_path srv source req) (mp4_path srv source req) w = Some r"
    and a: "answer (storage_of srv) (ts_path srv source req) (mp4_path srv source req) r
        = (Failure body, w')"
    by (auto simp: run_job_eq)
  from answer_Failure_D [OF a] obtain e w1 where e: "r = (Settled (Inl e), w1)"
    and body: "body = failure e"
    and w': "w' = cleanup (storage_of srv) [ts_path srv source req, mp4_path srv source req] w1"
    by blast
  have err: "res_error body = e"
    by (simp add: body failure_def)
  show "\<exists>w1. pipeline srv source
                        (base_file_name (clock srv) source (fileName req) @ ''.ts'')
                        (base_file_name (clock srv) source (fileName req) @ ''.mp4'')
                        (ts_path srv source req) (mp4_path srv source req) w
                      = Some (Settled (Inl (res_error body)), w1)
                    \<and> (\<forall>p. disk w' p =
                          (if (p = ts_path srv source req \<or> p = mp4_path srv source req)
                              \<and> \<not> unlink_fails (storage_of srv) p
                           then None else disk w1 p))"
    using r e by (intro exI [of _ w1]) (simp add: err w' cleanup_disk)
  show "res_note body = ''HLS download or MP4 conversion failed''"
    by (simp add: body failure_def)
  show "possible_causes body =
                    [''Invalid or expired Twitch video URL'',
                     ''Video is private, deleted, or subscriber-only'',
                     ''Network connectivity issues'',
                     ''Twitch anti-bot protection'',
                     ''FFmpeg conversion error'',
                     ''Insufficient disk space'']"
    by (simp add: body failure_def)
  show "suggestions body =
                    [''Verify the Twitch video URL is public and accessible'',
                     ''Try a different video or check if it requires login'',
                     ''Ensure the video ID is correct in the URL'']"
    by (simp add: body failure_def)
qed

theorem failed_job_cleans_up_witness:
  "vodUrl clip_job = Some ''http://h/p/index.m3u8''
   \<and> pipeline example_server ''http://h/p/index.m3u8'' ''clip.ts'' ''clip.mp4''
        ''/srv/app/downloads/clip.ts'' ''/srv/app/downloads/clip.mp4'' server_world
       = Some (Settled (Inl (HLSError (HLSDownloadFailed NoSegmentsDownloaded))),
               server_world\<lparr>disk := server_disk(''/srv/app/downloads/clip.ts'' \<mapsto> [0x47, 0x40])\<rparr>)
   \<and> (\<exists>w'. download_vod example_server clip_job server_world
              = Some (Failure (failure (HLSError (HLSDownloadFailed NoSegmentsDownloaded))), w')
           \<and> disk w' ''/srv/app/downloads/clip.ts'' = None
           \<and> disk w' ''/srv/app/downloads/clip.mp4'' = None
           \<and> disk w' ''/bin/ffmpeg'' = Some [0x7F])"
proof -
  have url: "vodUrl clip_job = Some ''http://h/p/index.m3u8''" "''http://h/p/index.m3u8'' \<noteq> []"
    by (simp_all add: clip_job_def)
  have srv: "network_of example_server = broken_stream_net" "storage_of example_server = reliable"
    by (simp_all add: example_server_def)
  have pl: "pipeline example_server ''http://h/p/index.m3u8'' ''clip.ts'' ''clip.mp4''
        ''/srv/app/downloads/clip.ts'' ''/srv/app/downloads/clip.mp4'' server_world
       = Some (Settled (Inl (HLSError (HLSDownloadFailed NoSegmentsDownloaded))),
               server_world\<lparr>disk := server_disk(''/srv/app/downloads/clip.ts'' \<mapsto> [0x47, 0x40])\<rparr>)"
    by (intro broken_stream_pipeline) (simp_all add: srv reliable_simps)
  have pl': "pipeline example_server ''http://h/p/index.m3u8''
        (base_file_name (clock example_server) ''http://h/p/index.m3u8'' (fileName clip_job) @ ''.ts'')
        (base_file_name (clock example_server) ''http://h/p/index.m3u8'' (fileName clip_job) @ ''.mp4'')
        (ts_path example_server ''http://h/p/index.m3u8'' clip_job)
        (mp4_path example_server ''http://h/p/index.m3u8'' clip_job) server_world
       = Some (Settled (Inl (HLSError (HLSDownloadFailed NoSegmentsDownloaded))),
               server_world\<lparr>disk := server_disk(''/srv/app/downloads/clip.ts'' \<mapsto> [0x47, 0x40])\<rparr>)"
    using pl by (simp add: example_paths)
  have bin: "server_disk ''/bin/ffmpeg'' = Some [0x7F]"
    by (simp add: server_disk_def)
  note clean = failed_job_cleans_up [OF url, of example_server server_world,
      THEN conjunct1, rule_format, OF pl', unfolded example_paths, folded failure_literal]
  then obtain w' where w': "download_vod example_server clip_job server_world
        = Some (Failure (failure (HLSError (HLSDownloadFailed NoSegmentsDownloaded))), w')"
      and d: "\<forall>p. disk w' p =
          (if (p = ''/srv/app/downloads/clip.ts'' \<or> p = ''/srv/app/downloads/clip.mp4'')
              \<and> \<not> unlink_fails (storage_of example_server) p
           then None
           else disk (server_world\<lparr>disk := server_disk(''/srv/app/downloads/clip.ts'' \<mapsto> [0x47, 0x40])\<rparr>) p)"
    by blast
  from d have "disk w' ''/srv/app/downloads/clip.ts'' = None"
    "disk w' ''/srv/app/downloads/clip.mp4'' = None"
    "disk w' ''/bin/ffmpeg'' = Some [0x7F]"
    by (simp_all add: srv reliable_simps bin)
  with w' url(1) pl show ?thesis by blast
qed

text \<open>
  C9: the resolver is consulted only for a source that contains \<^verbatim>\<open>twitch.tv\<close> and does
  not contain \<^verbatim>\<open>.m3u8\<close>. For every other source the handler does not depend on the
  resolver at all and hands the source itself to the download stage, whose first act is
  to fetch it as a playlist; for a source of the first kind the handler fails with the
  resolver's error or downloads from the URL the resolver returned.
\<close>

theorem resolver_runs_only_for_twitch_pages:
  "(\<not> is_twitch_page source \<longrightarrow>
        pipeline srv source tsFileName mp4FileName tsPath mp4Path w
          = download_stage srv source tsFileName mp4FileName tsPath mp4Path w
      \<and> run_job (srv\<lparr>extractTwitchM3U8 := other\<rparr>) source req w = run_job srv source req w
      \<and> (\<forall>msg. get_text (network_of srv) (playlist_request source) = Inl msg
            \<longrightarrow> pipeline srv source tsFileName mp4FileName tsPath mp4Path w
                  = Some (Settled (Inl (HLSError (HLSDownloadFailed (AxiosError msg)))), w)))
   \<and> (is_twitch_page source \<longrightarrow>
        pipeline srv source tsFileName mp4FileName tsPath mp4Path w
          = (case extractTwitchM3U8 srv source of
               Inl msg \<Rightarrow> Some (Settled (Inl (ExtractionError msg)), w)
             | Inr m3u8Url \<Rightarrow> download_stage srv m3u8Url tsFileName mp4FileName tsPath mp4Path w))
   \<and> (is_twitch_page source
        \<longleftrightarrow> str_includes source ''twitch.tv'' \<and> \<not> str_includes source ''.m3u8'')"
proof -
  have answer: "convert_and_answer (srv\<lparr>extractTwitchM3U8 := other\<rparr>) a b c d n v
      = convert_and_answer srv a b c d n v" for a b c d n v
    by (simp add: convert_and_answer_def cong: if_cong prod.case_cong sum.case_cong)
  have convert: "convert_stage (srv\<lparr>extractTwitchM3U8 := other\<rparr>) a b c d n v
      = convert_stage srv a b c d n v" for a b c d n v
    by (simp add: convert_stage_def answer [abs_def] cong: if_cong)
  have after: "after_download (srv\<lparr>extractTwitchM3U8 := other\<rparr>) a b c d v r
      = after_download srv a b c d v r" for a b c d v r
    by (cases "(srv, a, b, c, d, v, r)" rule: after_download.cases) (simp_all add: convert)
  have stage: "download_stage (srv\<lparr>extractTwitchM3U8 := other\<rparr>) m a b c d v
      = download_stage srv m a b c d v" for m a b c d v
    by (simp add: download_stage_def after [abs_def])
  have direct: "pipeline srv source tsFileName mp4FileName tsPath mp4Path w
          = download_stage srv source tsFileName mp4FileName tsPath mp4Path w"
    if "\<not> is_twitch_page source"
    using that by (simp add: pipeline_def)
  have same: "run_job (srv\<lparr>extractTwitchM3U8 := other\<rparr>) source req w = run_job srv source req w"
    if "\<not> is_twitch_page source"
    using that by (simp add: run_job_def Let_def pipeline_def stage)
  have fetch: "pipeline srv source tsFileName mp4FileName tsPath mp4Path w
                  = Some (Settled (Inl (HLSError (HLSDownloadFailed (AxiosError msg)))), w)"
    if "\<not> is_twitch_page source"
      and "get_text (network_of srv) (playlist_request source) = Inl msg" for msg
  proof -
    have "downloadHLS (network_of srv) (storage_of srv) source tsPath (disk w)
        = Some (Settled (Inl (HLSDownloadFailed (AxiosError msg))), disk w)"
      using that(2) by (subst downloadHLS.simps) simp
    with that(1) show ?thesis
      by (simp add: pipeline_def download_stage_def)
  qed
  have resolved: "pipeline srv source tsFileName mp4FileName tsPath mp4Path w
          = (case extractTwitchM3U8 srv source of
               Inl msg \<Rightarrow> Some (Settled (Inl (ExtractionError msg)), w)
             | Inr m3u8Url \<Rightarrow> download_stage srv m3u8Url tsFileName mp4FileName tsPath mp4Path w)"
    if "is_twitch_page source"
    using that by (simp add: pipeline_def)
  have test: "is_twitch_page source
        \<longleftrightarrow> str_includes source ''twitch.tv'' \<and> \<not> str_includes source ''.m3u8''"
    by (simp add: is_twitch_page_def)
  show ?thesis
  proof (intro conjI impI allI)
    assume "\<not> is_twitch_page source"
    then show "pipeline srv source tsFileName mp4FileName tsPath mp4Path w
          = download_stage srv source tsFileName mp4FileName tsPath mp4Path w"
      by (rule direct)
  next
    assume "\<not> is_twitch_page source"
    then show "run_job (srv\<lparr>extractTwitchM3U8 := other\<rparr>) source req w = run_job srv source req w"
      by (rule same)
  next
    fix msg
    assume "\<not> is_twitch_page source"
      and "get_text (network_of srv) (playlist_request source) = Inl msg"
    then show "pipeline srv source tsFileName mp4FileName tsPath mp4Path w
                  = Some (Settled (Inl (HLSError (HLSDownloadFailed (AxiosError msg)))), w)"
      by (rule fetch)
  next
    assume "is_twitch_page source"
    then show "pipeline srv source tsFileName mp4FileName tsPath mp4Path w
          = (case extractTwitchM3U8 srv source of
               Inl msg \<Rightarrow> Some (Settled (Inl (ExtractionError msg)), w)
             | Inr m3u8Url \<Rightarrow> download_stage srv m3u8Url tsFileName mp4FileName tsPath mp4Path w)"
      by (rule resolved)
  next
    show "is_twitch_page source
        \<longleftrightarrow> str_includes source ''twitch.tv'' \<and> \<not> str_includes source ''.m3u8''"
      by (rule test)
  qed
qed

theorem resolver_runs_only_for_twitch_pages_witness:
  "\<not> is_twitch_page ''https://example.com/watch''
   \<and> pipeline example_server ''https://example.com/watch'' ''clip.ts'' ''clip.mp4''
        ''/srv/app/downloads/clip.ts'' ''/srv/app/downloads/clip.mp4'' server_world
       = Some (Settled (Inl (HLSError (HLSDownloadFailed
                 (AxiosError ''Request failed with status code 404'')))),
               server_world)
   \<and> is_twitch_page ''https://www.twitch.tv/directory''
   \<and> pipeline example_server ''https://www.twitch.tv/directory'' ''clip.ts'' ''clip.mp4''
        ''/srv/app/downloads/clip.ts'' ''/srv/app/downloads/clip.mp4'' server_world
       = Some (Settled (Inl (ExtractionError (extractTwitchM3U8_message example_server))),
               server_world)"
proof -
  have page: "\<not> is_twitch_page ''https://example.com/watch''"
    by (simp add: is_twitch_page_def startsWith_def)
  have twitch: "is_twitch_page ''https://www.twitch.tv/directory''"
    by (simp add: is_twitch_page_def startsWith_def)
  have get: "get_text (network_of example_server) (playlist_request ''https://example.com/watch'')
      = Inl ''Request failed with status code 404''"
    by (simp add: example_server_def broken_stream_net_def playlist_request_def)
  have res: "extractTwitchM3U8 example_server ''https://www.twitch.tv/directory''
      = Inl (extractTwitchM3U8_message example_server)"
    by (simp add: example_server_def extractTwitchM3U8_message_def)
  have direct: "pipeline example_server ''https://example.com/watch'' ''clip.ts'' ''clip.mp4''
        ''/srv/app/downloads/clip.ts'' ''/srv/app/downloads/clip.mp4'' server_world
       = Some (Settled (Inl (HLSError (HLSDownloadFailed
                 (AxiosError ''Request failed with status code 404'')))),
               server_world)"
    using resolver_runs_only_for_twitch_pages [where source = "''https://example.com/watch''"
        and srv = example_server and tsFileName = "''clip.ts''" and mp4FileName = "''clip.mp4''"
        and tsPath = "''/srv/app/downloads/clip.ts''" and mp4Path = "''/srv/app/downloads/clip.mp4''"
        and w = server_world and other = Inr and req = page_job,
        THEN conjunct1, rule_format, OF page, THEN conjunct2, THEN conjunct2, rule_format, OF get]
    .
  have resolved: "pipeline example_server ''https://www.twitch.tv/directory'' ''clip.ts'' ''clip.mp4''
        ''/srv/app/downloads/clip.ts'' ''/srv/app/downloads/clip.mp4'' server_world
       = Some (Settled (Inl (ExtractionError (extractTwitchM3U8_message example_server))),
               server_world)"
    using resolver_runs_only_for_twitch_pages [where source = "''https://www.twitch.tv/directory''"
        and srv = example_server and tsFileName = "''clip.ts''" and mp4FileName = "''clip.mp4''"
        and tsPath = "''/srv/app/downloads/clip.ts''" and mp4Path = "''/srv/app/downloads/clip.mp4''"
        and w = server_world and other = Inr and req = twitch_job,
        THEN conjunct2, THEN conjunct1, rule_format, OF twitch] res
    by simp
  from page twitch direct resolved show ?thesis by blast
qed




text \<open>
  C6: the claim is that every network call carries a timeout, the fetch of the playlist
  text among them. The request that \<^verbatim>\<open>downloadHLS\<close> sends for the playlist (lines
  392--396) carries none, while the requests beside it do: 30 seconds for a segment, 10
  and 5 seconds for the probes of the resolver, 15 seconds for its fetch of the page.
\<close>

theorem playlist_request_has_no_timeout:
  "timeout (playlist_request m3u8Url) = None
   \<and> timeout (segment_request segmentUrl) = Some 30000
   \<and> timeout (candidate_probe_request candidateUrl) = Some 10000
   \<and> timeout (page_request twitchUrl) = Some 15000
   \<and> timeout (scraped_probe_request scrapedUrl) = Some 5000"
  by (simp add: playlist_request_def segment_request_def candidate_probe_request_def
      page_request_def scraped_probe_request_def)

end
